theory Spec2Isabelle
  imports Complex_Main "HOL-Library.Char_ord" "HOL-Library.List_Lexorder"
begin

section \<open>JavaScript values shared by the modules\<close>

text \<open>
  JavaScript numbers are modelled as exact rationals; a division whose divisor is zero has
  no finite value (the engine yields \<open>Infinity\<close> or \<open>NaN\<close>) and is the value \<open>None\<close>.
  Strings are lists of code units below 256.
\<close>

definition js_div :: "rat \<Rightarrow> rat \<Rightarrow> rat option" where
  "js_div a b = (if b = 0 then None else Some (a / b))"

text \<open>\<open>a || d\<close> on an optional string: an absent or empty string is falsy.\<close>

definition str_or :: "string option \<Rightarrow> string \<Rightarrow> string" where
  "str_or a d = (case a of None \<Rightarrow> d | Some v \<Rightarrow> if v = [] then d else v)"

text \<open>\<open>xs.slice(-n)\<close>: the last \<open>n\<close> elements; \<open>-0\<close> is \<open>0\<close>, so \<open>slice(-0)\<close> is the whole array.\<close>

definition slice_from_end :: "nat \<Rightarrow> 'a list \<Rightarrow> 'a list" where
  "slice_from_end n xs = (if n = 0 then xs else drop (length xs - n) xs)"

text \<open>The double quote, as a one-character string.\<close>

definition dquote :: string where
  "dquote = [CHR 0x22]"

text \<open>Decimal rendering of an integer, as a template literal renders it.\<close>

definition digit_char :: "int \<Rightarrow> char" where
  "digit_char n = char_of (48 + n mod 10)"

function show_digits :: "int \<Rightarrow> string" where
  "show_digits n = (if n < 10 then [digit_char n] else show_digits (n div 10) @ [digit_char n])"
  by pat_completeness auto
termination
  by (relation "measure nat") auto

declare show_digits.simps [simp del]

definition show_int :: "int \<Rightarrow> string" where
  "show_int i = (if i < 0 then CHR ''-'' # show_digits (- i) else show_digits i)"

definition show_nat :: "nat \<Rightarrow> string" where
  "show_nat n = show_digits (int n)"

text \<open>\<open>Math.round\<close>: the nearest integer, a tie going up.\<close>

definition Math_round :: "rat \<Rightarrow> int" where
  "Math_round x = \<lfloor>x + 1 / 2\<rfloor>"

section \<open>Monitoring module (public/js/monitoring.js)\<close>

record call_data =
  startTime :: rat
  call_endpoint :: string
  call_method :: string

record start_details =
  sd_callId :: "rat option"
  sd_endpoint :: string
  sd_method :: string

record end_details =
  ed_callId :: "rat option"
  ed_success :: bool
  ed_status :: "nat option"

text \<open>
  The \<open>details\<close> objects the module attaches to a log entry: the position of a script error,
  \<open>{callId, ...details}\<close> of a started call and
  \<open>{callId, responseTime, status, ...callData}\<close> of a finished one.
\<close>

datatype log_details =
  ErrorLocation string nat nat
  | CallStarted rat start_details
  | CallEnded rat rat "nat option" call_data

record log_input =
  in_timestamp :: "string option"
  in_level :: "string option"
  in_message :: "string option"
  in_module :: "string option"
  in_details :: "log_details option"

record log_entry =
  entry_id :: rat
  timestamp :: string
  level :: string
  message :: string
  module :: string
  details :: "log_details option"

record metric_point =
  pt_timestamp :: rat
  pt_value :: rat

record metrics_t =
  responseTime :: "metric_point list"
  successRate :: "metric_point list"
  errorRate :: "metric_point list"
  activeOrders :: nat
  systemStatus :: string

record performance_data =
  apiCalls :: nat
  successfulCalls :: nat
  failedCalls :: nat
  totalResponseTime :: rat
  averageResponseTime :: "rat option"

text \<open>
  The manager's fields, with the page-global \<open>window.apiCallTracker\<close> (a \<open>Map\<close> from call
  id to call data, absent until the first call starts; an absent tracker and an empty one
  answer \<open>has\<close> alike).
\<close>

record monitor =
  logs :: "log_entry list"
  metrics :: metrics_t
  maxLogEntries :: nat
  maxMetricPoints :: nat
  isMonitoring :: bool
  performanceData :: performance_data
  apiCallTracker :: "rat \<rightharpoonup> call_data"

text \<open>
  What one call reads from the browser: \<open>Date.now()\<close>, \<open>performance.now()\<close>,
  \<open>new Date().toISOString()\<close> and \<open>Math.random()\<close>. \<open>math_random\<close> is the random number
  that \<open>addLog\<close> draws for the id of the entry; \<open>call_random\<close> is the one that
  \<open>trackAPICallStart\<close> draws before it, when it has to generate a call id.
\<close>

record clock =
  date_now :: rat
  math_random :: rat
  call_random :: rat
  perf_now :: rat
  iso_now :: string

definition push_point :: "nat \<Rightarrow> metric_point \<Rightarrow> metric_point list \<Rightarrow> metric_point list" where
  "push_point cap p ps =
     (let ps' = ps @ [p] in if length ps' > cap then slice_from_end cap ps' else ps')"

definition updateErrorRate :: "clock \<Rightarrow> monitor \<Rightarrow> monitor" where
  "updateErrorRate c s =
     (let totalCalls = apiCalls (performanceData s);
          rate = (if totalCalls > 0
                  then (of_nat (failedCalls (performanceData s)) / of_nat totalCalls) * 100
                  else 0)
      in s\<lparr>metrics := (metrics s)\<lparr>errorRate :=
            push_point (maxMetricPoints s) \<lparr>pt_timestamp = date_now c, pt_value = rate\<rparr>
              (errorRate (metrics s))\<rparr>\<rparr>)"

definition updateSuccessRate :: "clock \<Rightarrow> monitor \<Rightarrow> monitor" where
  "updateSuccessRate c s =
     (let totalCalls = successfulCalls (performanceData s) + failedCalls (performanceData s);
          rate = (if totalCalls > 0
                  then (of_nat (successfulCalls (performanceData s)) / of_nat totalCalls) * 100
                  else 100)
      in s\<lparr>metrics := (metrics s)\<lparr>successRate :=
            push_point (maxMetricPoints s) \<lparr>pt_timestamp = date_now c, pt_value = rate\<rparr>
              (successRate (metrics s))\<rparr>\<rparr>)"

definition make_entry :: "clock \<Rightarrow> log_input \<Rightarrow> log_entry" where
  "make_entry c e =
     \<lparr>entry_id = date_now c + math_random c,
      timestamp = str_or (in_timestamp e) (iso_now c),
      level = str_or (in_level e) ''info'',
      message = str_or (in_message e) [],
      module = str_or (in_module e) ''Unknown'',
      details = in_details e\<rparr>"

definition addLog :: "clock \<Rightarrow> log_input \<Rightarrow> monitor \<Rightarrow> monitor" where
  "addLog c e s =
     (let entry = make_entry c e;
          pushed = logs s @ [entry];
          s1 = s\<lparr>logs := (if length pushed > maxLogEntries s
                            then slice_from_end (maxLogEntries s) pushed else pushed)\<rparr>
      in if level entry = ''error''
         then updateErrorRate c
                (s1\<lparr>performanceData := (performanceData s1)
                      \<lparr>failedCalls := failedCalls (performanceData s1) + 1\<rparr>\<rparr>)
         else s1)"

text \<open>The argument the module's own calls of \<open>addLog\<close> pass, stamped with the current time.\<close>

definition log_request :: "clock \<Rightarrow> string \<Rightarrow> string \<Rightarrow> string \<Rightarrow> log_details option \<Rightarrow> log_input" where
  "log_request c lvl msg md dt =
     \<lparr>in_timestamp = Some (iso_now c), in_level = Some lvl, in_message = Some msg,
      in_module = Some md, in_details = dt\<rparr>"

text \<open>
  \<open>details.callId || Date.now() + Math.random()\<close>: an absent or zero id is replaced by a
  generated one.
\<close>

definition trackAPICallStart :: "clock \<Rightarrow> start_details \<Rightarrow> monitor \<Rightarrow> monitor" where
  "trackAPICallStart c d s =
     (let callId = (case sd_callId d of
                      None \<Rightarrow> date_now c + call_random c
                    | Some i \<Rightarrow> if i = 0 then date_now c + call_random c else i);
          s1 = s\<lparr>performanceData := (performanceData s)
                    \<lparr>apiCalls := apiCalls (performanceData s) + 1\<rparr>\<rparr>;
          s2 = s1\<lparr>apiCallTracker := (apiCallTracker s1)
                    (callId \<mapsto> \<lparr>startTime = perf_now c, call_endpoint = sd_endpoint d,
                                 call_method = sd_method d\<rparr>)\<rparr>
      in addLog c
           (log_request c ''info'' (''API Call Started: '' @ sd_method d @ '' '' @ sd_endpoint d)
              ''APITracker'' (Some (CallStarted callId d)))
           s2)"

definition trackAPICallEnd :: "clock \<Rightarrow> end_details \<Rightarrow> monitor \<Rightarrow> monitor" where
  "trackAPICallEnd c d s =
     (let s' =
        (case ed_callId d of
           None \<Rightarrow> s
         | Some callId \<Rightarrow>
            (case apiCallTracker s callId of
               None \<Rightarrow> s
             | Some callData \<Rightarrow>
                (let rt = perf_now c - startTime callData;
                     pd = performanceData s;
                     total = totalResponseTime pd + rt;
                     pd1 = pd\<lparr>totalResponseTime := total,
                              averageResponseTime := js_div total (of_nat (apiCalls pd))\<rparr>;
                     pd2 = (if ed_success d
                            then pd1\<lparr>successfulCalls := successfulCalls pd1 + 1\<rparr>
                            else pd1\<lparr>failedCalls := failedCalls pd1 + 1\<rparr>);
                     s1 = s\<lparr>performanceData := pd2,
                            metrics := (metrics s)\<lparr>responseTime :=
                              push_point (maxMetricPoints s)
                                \<lparr>pt_timestamp = date_now c, pt_value = rt\<rparr>
                                (responseTime (metrics s))\<rparr>\<rparr>;
                     s2 = addLog c
                            (log_request c (if ed_success d then ''success'' else ''error'')
                               (''API Call '' @ (if ed_success d then ''Completed'' else ''Failed'')
                                  @ '': '' @ call_method callData @ '' '' @ call_endpoint callData
                                  @ '' ('' @ show_int (Math_round rt) @ ''ms)'')
                               ''APITracker'' (Some (CallEnded callId rt (ed_status d) callData)))
                            s1
                 in s2\<lparr>apiCallTracker := (apiCallTracker s2)(callId := None)\<rparr>)))
      in updateSuccessRate c s')"

text \<open>
  \<open>clearLogs\<close>: the list is emptied (the display refresh and the save to local storage
  leave the manager unchanged), then the confirmation is logged.
\<close>

definition clearLogs :: "clock \<Rightarrow> monitor \<Rightarrow> monitor" where
  "clearLogs c s =
     addLog c (log_request c ''info'' ''All logs cleared'' ''MonitoringManager'' None)
       (s\<lparr>logs := []\<rparr>)"

text \<open>The constructor's field values, before \<open>initialize\<close> runs.\<close>

definition constructed :: monitor where
  "constructed =
     \<lparr>logs = [],
      metrics = \<lparr>responseTime = [], successRate = [], errorRate = [], activeOrders = 0,
                 systemStatus = ''monitoring''\<rparr>,
      maxLogEntries = 1000,
      maxMetricPoints = 50,
      isMonitoring = False,
      performanceData = \<lparr>apiCalls = 0, successfulCalls = 0, failedCalls = 0,
                         totalResponseTime = 0, averageResponseTime = Some 0\<rparr>,
      apiCallTracker = Map.empty\<rparr>"

text \<open>
  \<open>loadStoredData\<close>: stored logs are cut to the cap, stored metrics replace the fresh ones
  (\<open>saveData\<close> stores every field of \<open>metrics\<close>).
\<close>

definition loadStoredData :: "log_entry list option \<Rightarrow> metrics_t option \<Rightarrow> monitor \<Rightarrow> monitor" where
  "loadStoredData storedLogs storedMetrics s =
     (let s1 = (case storedLogs of None \<Rightarrow> s
                | Some l \<Rightarrow> s\<lparr>logs := slice_from_end (maxLogEntries s) l\<rparr>)
      in case storedMetrics of None \<Rightarrow> s1 | Some m \<Rightarrow> s1\<lparr>metrics := m\<rparr>)"

definition startMonitoring :: "clock \<Rightarrow> monitor \<Rightarrow> monitor" where
  "startMonitoring c s =
     (if isMonitoring s then s
      else addLog c (log_request c ''info'' ''Monitoring system started'' ''MonitoringManager'' None)
             (s\<lparr>isMonitoring := True\<rparr>))"

definition initialize :: "clock \<Rightarrow> log_entry list option \<Rightarrow> metrics_t option \<Rightarrow> monitor" where
  "initialize c storedLogs storedMetrics =
     startMonitoring c (loadStoredData storedLogs storedMetrics constructed)"

text \<open>\<open>getMonitoringSummary\<close>\<close>

record monitoring_summary =
  ms_totalLogs :: nat
  ms_errorLogs :: nat
  ms_warningLogs :: nat
  ms_successRate :: rat
  ms_averageResponseTime :: "rat option"
  ms_systemStatus :: string
  ms_activeOrders :: nat
  ms_uptime :: string

definition getMonitoringSummary :: "monitor \<Rightarrow> monitoring_summary" where
  "getMonitoringSummary s =
     \<lparr>ms_totalLogs = length (logs s),
      ms_errorLogs = length (filter (\<lambda>l. level l = ''error'') (logs s)),
      ms_warningLogs = length (filter (\<lambda>l. level l = ''warning'') (logs s)),
      ms_successRate =
        (if apiCalls (performanceData s) > 0
         then (of_nat (successfulCalls (performanceData s)) /
               of_nat (apiCalls (performanceData s))) * 100
         else 100),
      ms_averageResponseTime = averageResponseTime (performanceData s),
      ms_systemStatus = systemStatus (metrics s),
      ms_activeOrders = activeOrders (metrics s),
      ms_uptime = (if isMonitoring s then ''Active'' else ''Inactive'')\<rparr>"

subsection \<open>Sequences of monitoring operations\<close>

datatype monitor_op =
  AddLog clock log_input
  | TrackAPICallStart clock start_details
  | TrackAPICallEnd clock end_details
  | UpdateSuccessRate clock
  | UpdateErrorRate clock
  | ClearLogs clock

fun apply_op :: "monitor_op \<Rightarrow> monitor \<Rightarrow> monitor" where
  "apply_op (AddLog c e) s = addLog c e s"
| "apply_op (TrackAPICallStart c d) s = trackAPICallStart c d s"
| "apply_op (TrackAPICallEnd c d) s = trackAPICallEnd c d s"
| "apply_op (UpdateSuccessRate c) s = updateSuccessRate c s"
| "apply_op (UpdateErrorRate c) s = updateErrorRate c s"
| "apply_op (ClearLogs c) s = clearLogs c s"

fun run_ops :: "monitor_op list \<Rightarrow> monitor \<Rightarrow> monitor" where
  "run_ops [] s = s"
| "run_ops (x # xs) s = run_ops xs (apply_op x s)"

definition within_bounds :: "monitor \<Rightarrow> bool" where
  "within_bounds s \<longleftrightarrow>
     length (logs s) \<le> maxLogEntries s \<and>
     length (responseTime (metrics s)) \<le> maxMetricPoints s \<and>
     length (successRate (metrics s)) \<le> maxMetricPoints s \<and>
     length (errorRate (metrics s)) \<le> maxMetricPoints s"


text \<open>
  The sandbox's authentication scenario: three tracked calls to the login endpoint, one
  after the other, the third one failing. Every operation reads its own clock.
\<close>

definition call_start :: "rat \<Rightarrow> start_details" where
  "call_start i = \<lparr>sd_callId = Some i, sd_endpoint = ''/v1/login'', sd_method = ''POST''\<rparr>"

definition call_end :: "rat \<Rightarrow> bool \<Rightarrow> end_details" where
  "call_end i ok = \<lparr>ed_callId = Some i, ed_success = ok, ed_status = None\<rparr>"

definition auth_scenario :: "clock \<Rightarrow> clock \<Rightarrow> clock \<Rightarrow> clock \<Rightarrow> clock \<Rightarrow> clock \<Rightarrow> monitor_op list" where
  "auth_scenario c1 c2 c3 c4 c5 c6 =
     [TrackAPICallStart c1 (call_start 1), TrackAPICallEnd c2 (call_end 1 True),
      TrackAPICallStart c3 (call_start 2), TrackAPICallEnd c4 (call_end 2 True),
      TrackAPICallStart c5 (call_start 3), TrackAPICallEnd c6 (call_end 3 False)]"

definition noon :: clock where
  "noon = \<lparr>date_now = 1704110400000, math_random = 1 / 4, call_random = 3 / 4, perf_now = 1500,
           iso_now = ''2024-01-01T12:00:00.000Z''\<rparr>"

text \<open>A state whose caps are \<open>L\<close> and \<open>M\<close> and whose lists respect them.\<close>

definition bounded_by :: "nat \<Rightarrow> nat \<Rightarrow> monitor \<Rightarrow> bool" where
  "bounded_by L M s \<longleftrightarrow> 0 < L \<and> 0 < M \<and> maxLogEntries s = L \<and> maxMetricPoints s = M \<and> within_bounds s"

section \<open>Configuration module (public/js/config.js)\<close>

record configuration =
  integrationName :: string
  integrationCode :: string
  baseUrl :: string
  pluginUsername :: string
  pluginPassword :: string
  environment :: string
  country :: string
  region :: string
  vendorCode :: string
  remoteId :: string
  callbackUrl :: string

record validation_result =
  isValid :: bool
  errors :: "string list"

text \<open>The character classes \<open>[a-zA-Z]\<close>, \<open>\s\<close> and \<open>[a-z-]\<close> of the two patterns.\<close>

definition is_letter :: "char \<Rightarrow> bool" where
  "is_letter c \<longleftrightarrow>
     (97 \<le> (of_char c :: nat) \<and> (of_char c :: nat) \<le> 122) \<or>
     (65 \<le> (of_char c :: nat) \<and> (of_char c :: nat) \<le> 90)"

definition is_space :: "char \<Rightarrow> bool" where
  "is_space c \<longleftrightarrow> (of_char c :: nat) \<in> {9, 10, 11, 12, 13, 32, 160}"

definition is_lower_or_hyphen :: "char \<Rightarrow> bool" where
  "is_lower_or_hyphen c \<longleftrightarrow>
     (97 \<le> (of_char c :: nat) \<and> (of_char c :: nat) \<le> 122) \<or> c = CHR ''-''"

text \<open>
  \<open>/^[a-zA-Z\s]+[a-zA-Z]+$/\<close>: the string splits into a non-empty run of letters and
  white space followed by a non-empty run of letters.
\<close>

definition name_pattern :: "string \<Rightarrow> bool" where
  "name_pattern s \<longleftrightarrow>
     list_ex (\<lambda>k. list_all (\<lambda>c. is_letter c \<or> is_space c) (take k s) \<and>
                  list_all is_letter (drop k s)) [1..<length s]"

text \<open>\<open>/^[a-z-]+$/\<close>\<close>

definition code_pattern :: "string \<Rightarrow> bool" where
  "code_pattern s \<longleftrightarrow> s \<noteq> [] \<and> list_all is_lower_or_hyphen s"

definition startsWith :: "string \<Rightarrow> string \<Rightarrow> bool" where
  "startsWith s p \<longleftrightarrow> take (length p) s = p"

text \<open>
  \<open>isValidUrl\<close> asks the browser's \<open>URL\<close> constructor, which is not part of the
  repository: \<open>url_parses s\<close> says that \<open>new URL(s)\<close> returns instead of throwing.
\<close>

definition isValidUrl :: "(string \<Rightarrow> bool) \<Rightarrow> string \<Rightarrow> bool" where
  "isValidUrl url_parses s = url_parses s"

text \<open>
  \<open>validateConfiguration(config)\<close>, with \<open>currentConfig\<close> standing in for an absent
  argument. An absent field and an empty string are both falsy.
\<close>

definition validateConfiguration ::
  "(string \<Rightarrow> bool) \<Rightarrow> configuration \<Rightarrow> configuration option \<Rightarrow> validation_result" where
  "validateConfiguration url_parses currentConfig config =
     (let data = (case config of None \<Rightarrow> currentConfig | Some c \<Rightarrow> c);
          e1 = (if integrationName data = [] then [''Integration Name is required'']
                else if \<not> name_pattern (integrationName data)
                then [''Integration Name should follow format: '' @ dquote @ ''Company Name Country'' @ dquote]
                else []);
          e2 = (if integrationCode data = [] then [''Integration Code is required'']
                else if \<not> code_pattern (integrationCode data)
                then [''Integration Code should follow format: '' @ dquote @ ''company-name-countrycode'' @ dquote]
                else []);
          e3 = (if baseUrl data = [] then [''Base URL is required'']
                else if \<not> isValidUrl url_parses (baseUrl data) then [''Base URL is not valid'']
                else if \<not> startsWith (baseUrl data) ''https://''
                then [''Base URL must use HTTPS'']
                else []);
          e4 = (if pluginUsername data = [] then [''Plugin Username is required''] else []);
          e5 = (if pluginPassword data = [] then [''Plugin Password is required''] else []);
          errs = e1 @ e2 @ e3 @ e4 @ e5
      in \<lparr>isValid = (length errs = 0), errors = errs\<rparr>)"

text \<open>
  A stand-in for the \<open>URL\<close> constructor on the inputs of the examples: an absolute address
  is a scheme (a letter, then letters, digits, \<open>+\<close>, \<open>-\<close> or \<open>.\<close>), a colon and, after
  \<open>//\<close>, a non-empty rest.
\<close>

definition scheme_char :: "char \<Rightarrow> bool" where
  "scheme_char c \<longleftrightarrow>
     is_letter c \<or> (48 \<le> (of_char c :: nat) \<and> (of_char c :: nat) \<le> 57) \<or>
     c \<in> {CHR ''+'', CHR ''-'', CHR ''.''}"

definition absolute_address :: "string \<Rightarrow> bool" where
  "absolute_address s =
     (let scheme = takeWhile (\<lambda>c. c \<noteq> CHR '':'') s; rest = drop (length scheme) s
      in scheme \<noteq> [] \<and> is_letter (hd scheme) \<and> list_all scheme_char scheme \<and>
         take 3 rest = ''://'' \<and> 3 < length rest)"

definition plain_http_config :: configuration where
  "plain_http_config =
     \<lparr>integrationName = ''Demo POS UAE'', integrationCode = ''demo-pos-ae'',
      baseUrl = ''http://demo-pos-api.com'', pluginUsername = ''demo'',
      pluginPassword = ''secret'', environment = ''staging'', country = ''AE'',
      region = ''me'', vendorCode = ''DEMO001'', remoteId = ''123456'', callbackUrl = []\<rparr>"

definition demo_config :: configuration where
  "demo_config =
     \<lparr>integrationName = ''Demo POS UAE'', integrationCode = ''demo-pos-ae'',
      baseUrl = ''https://demo-pos-api.com'', pluginUsername = ''demo'',
      pluginPassword = ''secret'', environment = ''staging'', country = ''AE'',
      region = ''me'', vendorCode = ''DEMO001'', remoteId = ''123456'', callbackUrl = []\<rparr>"

section \<open>Login endpoint of the serverless server\<close>

record login_request =
  username :: "string option"
  password :: "string option"

record token_response =
  access_token :: string
  refresh_token :: string
  token_type :: string
  expires_in :: nat

record login_response =
  status :: nat
  success :: bool
  data :: "token_response option"
  error :: "string option"

text \<open>A credential is truthy when it is present and not the empty string.\<close>

definition truthy :: "string option \<Rightarrow> bool" where
  "truthy a = (case a of None \<Rightarrow> False | Some v \<Rightarrow> v \<noteq> [])"

text \<open>
  The handler of \<open>POST /api/auth/login\<close>. \<open>generateMockToken\<close> encodes the user name, the
  clock and a random number in base 64; it is taken as a function of the user name.
\<close>

definition login :: "(string \<Rightarrow> string) \<Rightarrow> login_request \<Rightarrow> login_response" where
  "login generateMockToken body =
     (if truthy (username body) \<and> truthy (password body)
      then \<lparr>status = 200, success = True,
            data = Some \<lparr>access_token = generateMockToken (the (username body)),
                         refresh_token = generateMockToken (the (username body) @ ''_refresh''),
                         token_type = ''Bearer'', expires_in = 3600\<rparr>,
            error = None\<rparr>
      else \<lparr>status = 400, success = False, data = None,
            error = Some ''Username and password required''\<rparr>)"

text \<open>A stand-in for the token generator on the inputs of the examples.\<close>

definition demo_token :: "string \<Rightarrow> string" where
  "demo_token u = ''token:'' @ u"

section \<open>Reports module\<close>

subsection \<open>Objects and values\<close>

text \<open>
  The values a report holds. A number is finite or not (\<open>None\<close> stands for \<open>NaN\<close> and the
  infinities); an object is the list of its own properties in insertion order; a native
  function is known by its name.
\<close>

datatype jsval =
  JUndefined
  | JNull
  | JBool bool
  | JNum "rat option"
  | JStr string
  | JObject "(string \<times> jsval) list"
  | JArray "jsval list"
  | JFunction string

type_synonym jsobj = "(string \<times> jsval) list"

definition jnat :: "nat \<Rightarrow> jsval" where
  "jnat n = JNum (Some (of_nat n))"

definition jint :: "int \<Rightarrow> jsval" where
  "jint i = JNum (Some (of_int i))"

fun typeof :: "jsval \<Rightarrow> string" where
  "typeof JUndefined = ''undefined''"
| "typeof JNull = ''object''"
| "typeof (JBool b) = ''boolean''"
| "typeof (JNum n) = ''number''"
| "typeof (JStr s) = ''string''"
| "typeof (JObject ps) = ''object''"
| "typeof (JArray xs) = ''object''"
| "typeof (JFunction f) = ''function''"

fun js_truthy :: "jsval \<Rightarrow> bool" where
  "js_truthy JUndefined = False"
| "js_truthy JNull = False"
| "js_truthy (JBool b) = b"
| "js_truthy (JNum n) = (case n of None \<Rightarrow> False | Some r \<Rightarrow> r \<noteq> 0)"
| "js_truthy (JStr s) = (s \<noteq> [])"
| "js_truthy (JObject ps) = True"
| "js_truthy (JArray xs) = True"
| "js_truthy (JFunction f) = True"

text \<open>
  What every plain object inherits from \<open>Object.prototype\<close>: eleven native functions and
  the accessor \<open>__proto__\<close>, which yields the prototype object itself.
\<close>

definition object_prototype :: jsobj where
  "object_prototype =
     [(''constructor'', JFunction ''Object''),
      (''hasOwnProperty'', JFunction ''hasOwnProperty''),
      (''isPrototypeOf'', JFunction ''isPrototypeOf''),
      (''propertyIsEnumerable'', JFunction ''propertyIsEnumerable''),
      (''toLocaleString'', JFunction ''toLocaleString''),
      (''toString'', JFunction ''toString''),
      (''valueOf'', JFunction ''valueOf''),
      (''__defineGetter__'', JFunction ''__defineGetter__''),
      (''__defineSetter__'', JFunction ''__defineSetter__''),
      (''__lookupGetter__'', JFunction ''__lookupGetter__''),
      (''__lookupSetter__'', JFunction ''__lookupSetter__''),
      (''__proto__'', JObject [])]"

text \<open>\<open>obj[key]\<close> on a plain object: an own property, else an inherited one, else \<open>undefined\<close>.\<close>

definition js_get :: "jsobj \<Rightarrow> string \<Rightarrow> jsval" where
  "js_get obj k =
     (case map_of obj k of
        Some v \<Rightarrow> v
      | None \<Rightarrow> (case map_of object_prototype k of Some v \<Rightarrow> v | None \<Rightarrow> JUndefined))"

text \<open>
  \<open>v.key\<close> on a value that is an object or a function (of a function only its \<open>name\<close> is
  modelled); on other values the model answers \<open>undefined\<close>.
\<close>

fun js_prop :: "jsval \<Rightarrow> string \<Rightarrow> jsval" where
  "js_prop (JObject ps) k = js_get ps k"
| "js_prop (JFunction f) k = (if k = ''name'' then JStr f else JUndefined)"
| "js_prop v k = JUndefined"

text \<open>\<open>{...obj, key: v}\<close>: the property is replaced in place or appended.\<close>

fun js_set :: "jsobj \<Rightarrow> string \<Rightarrow> jsval \<Rightarrow> jsobj" where
  "js_set [] k v = [(k, v)]"
| "js_set ((k', v') # ps) k v = (if k' = k then (k, v) # ps else (k', v') # js_set ps k v)"

definition newline :: string where
  "newline = [CHR 0x0A]"

text \<open>\<open>xs.join(sep)\<close> on strings.\<close>

fun join :: "string \<Rightarrow> string list \<Rightarrow> string" where
  "join sep [] = []"
| "join sep [x] = x"
| "join sep (x # y # ys) = x @ sep @ join sep (y # ys)"

subsection \<open>The page: built-in functions and the other managers\<close>

text \<open>
  The functions of the JavaScript library that the reports call and the globals they
  read. \<open>Date_parse\<close> is the time value of \<open>new Date(s)\<close> in milliseconds (\<open>None\<close> for an
  invalid date), \<open>Math_random k\<close> is the result of the \<open>k\<close>-th call of \<open>Math.random()\<close>
  during the operation, and \<open>Date_now\<close> is the clock, read once per operation.
  \<open>JSON_stringify n v\<close> is the text of \<open>JSON.stringify(v, null, n)\<close>, as a template literal
  shows it (\<open>n = 0\<close> for the call without indentation).
\<close>

record page =
  Date_parse :: "string \<Rightarrow> int option"
  Date_toISOString :: "int \<Rightarrow> string"
  Date_now :: int
  Math_random :: "nat \<Rightarrow> rat"
  Number_toFixed :: "nat \<Rightarrow> rat \<Rightarrow> string"
  Number_toString :: "rat \<Rightarrow> string"
  parseFloat :: "string \<Rightarrow> rat option"
  JSON_stringify :: "nat \<Rightarrow> jsval \<Rightarrow> string"
  configManager :: "configuration option"
  monitoringManager :: "monitor option"

text \<open>\<open>String(v)\<close>, which a template literal applies as well.\<close>

fun String_js :: "page \<Rightarrow> jsval \<Rightarrow> string" where
  "String_js pg JUndefined = ''undefined''"
| "String_js pg JNull = ''null''"
| "String_js pg (JBool b) = (if b then ''true'' else ''false'')"
| "String_js pg (JNum n) = (case n of None \<Rightarrow> ''NaN'' | Some r \<Rightarrow> Number_toString pg r)"
| "String_js pg (JStr s) = s"
| "String_js pg (JObject ps) = ''[object Object]''"
| "String_js pg (JArray xs) =
     join '','' (map (\<lambda>x. if x = JUndefined \<or> x = JNull then [] else String_js pg x) xs)"
| "String_js pg (JFunction f) = ''function '' @ f @ ''() { [native code] }''"

text \<open>\<open>x.toFixed(d)\<close> and \<open>parseFloat(v)\<close> on numbers that may be \<open>NaN\<close>.\<close>

definition toFixed :: "page \<Rightarrow> nat \<Rightarrow> rat option \<Rightarrow> string" where
  "toFixed pg d x = (case x of None \<Rightarrow> ''NaN'' | Some r \<Rightarrow> Number_toFixed pg d r)"

definition parseFloat_js :: "page \<Rightarrow> jsval \<Rightarrow> rat option" where
  "parseFloat_js pg v = parseFloat pg (String_js pg v)"

text \<open>Arithmetic on numbers that may be \<open>NaN\<close>.\<close>

definition num_add :: "rat option \<Rightarrow> rat option \<Rightarrow> rat option" where
  "num_add a b = (case (a, b) of (Some x, Some y) \<Rightarrow> Some (x + y) | _ \<Rightarrow> None)"

definition num_div :: "rat option \<Rightarrow> rat option \<Rightarrow> rat option" where
  "num_div a b = (case (a, b) of (Some x, Some y) \<Rightarrow> js_div x y | _ \<Rightarrow> None)"

text \<open>The number a numeric field holds; any other value counts as \<open>NaN\<close>.\<close>

fun num_of :: "jsval \<Rightarrow> rat option" where
  "num_of (JNum n) = n"
| "num_of v = None"

text \<open>\<open>new Date(x)\<close> on a number cuts the fraction off (towards zero).\<close>

definition time_clip :: "rat \<Rightarrow> int" where
  "time_clip x = (if 0 \<le> x then \<lfloor>x\<rfloor> else \<lceil>x\<rceil>)"

definition ms_per_day :: rat where
  "ms_per_day = 1000 * 60 * 60 * 24"

subsection \<open>Report parameters and their validation\<close>

record report_params =
  fromDate :: "string option"
  toDate :: "string option"
  type :: string
  format :: string

text \<open>
  The form, as \<open>getReportParameters\<close> reads it: the value of each element, \<open>None\<close> where the
  element is missing from the document.
\<close>

record report_form =
  reportFromDate :: "string option"
  reportToDate :: "string option"
  reportType :: "string option"
  reportFormat :: "string option"

definition getReportParameters :: "report_form \<Rightarrow> report_params" where
  "getReportParameters f =
     \<lparr>fromDate = reportFromDate f, toDate = reportToDate f,
      type = str_or (reportType f) ''all'', format = str_or (reportFormat f) ''json''\<rparr>"

definition template :: "string \<Rightarrow> string \<Rightarrow> string list \<Rightarrow> jsval" where
  "template n d fs = JObject [(''name'', JStr n), (''description'', JStr d),
                              (''fields'', JArray (map JStr fs))]"

definition reportTemplates :: jsobj where
  "reportTemplates =
     [(''completed'', template ''Completed Orders Report''
         ''Report of all successfully completed orders''
         [''order_id'', ''vendor_code'', ''total_amount'', ''completion_time'', ''customer_info'']),
      (''cancelled'', template ''Cancelled Orders Report''
         ''Report of all cancelled orders with reasons''
         [''order_id'', ''vendor_code'', ''total_amount'', ''cancellation_reason'', ''cancelled_at'']),
      (''performance'', template ''Performance Analysis Report''
         ''Comprehensive performance metrics and analytics''
         [''response_times'', ''success_rates'', ''error_rates'', ''throughput'', ''uptime'']),
      (''errors'', template ''Error Analysis Report''
         ''Detailed analysis of errors and issues''
         [''error_types'', ''error_frequencies'', ''error_trends'', ''resolution_times'']),
      (''all'', template ''Comprehensive Order Report''
         ''All orders with complete details''
         [''order_id'', ''status'', ''vendor_code'', ''total_amount'', ''timestamps'',
          ''customer_info''])]"

text \<open>
  \<open>(toDate - fromDate) / (1000 * 60 * 60 * 24)\<close> on the two parsed dates; \<open>NaN\<close> when a
  date is invalid.
\<close>

definition date_diff :: "int option \<Rightarrow> int option \<Rightarrow> rat option" where
  "date_diff t f = (case (t, f) of (Some a, Some b) \<Rightarrow> Some (of_int (a - b)) | _ \<Rightarrow> None)"

definition days_between :: "int option \<Rightarrow> int option \<Rightarrow> rat option" where
  "days_between f t = map_option (\<lambda>ms. ms / ms_per_day) (date_diff t f)"

text \<open>\<open>new Date(v)\<close> on a parameter that is a string or \<open>undefined\<close>.\<close>

definition new_Date :: "page \<Rightarrow> string option \<Rightarrow> int option" where
  "new_Date pg v = (case v of None \<Rightarrow> None | Some s \<Rightarrow> Date_parse pg s)"

text \<open>
  \<open>validateReportParameters\<close>: the first failing check throws its message (\<open>Inl\<close>); when
  none fails the function returns \<open>true\<close>. A comparison with an invalid date is false.
\<close>

definition validateReportParameters :: "page \<Rightarrow> report_params \<Rightarrow> string + bool" where
  "validateReportParameters pg params =
     (if \<not> truthy (fromDate params) \<or> \<not> truthy (toDate params)
      then Inl ''Please select date range''
      else
        (let from = new_Date pg (fromDate params);
             to = new_Date pg (toDate params)
         in if (case (from, to) of (Some f, Some t) \<Rightarrow> f > t | _ \<Rightarrow> False)
            then Inl ''From date cannot be later than to date''
            else if (case days_between from to of Some d \<Rightarrow> d > 365 | None \<Rightarrow> False)
            then Inl ''Date range cannot exceed 365 days''
            else if \<not> js_truthy (js_get reportTemplates (type params))
            then Inl ''Invalid report type''
            else if format params \<notin> set [''json'', ''csv'', ''pdf'']
            then Inl ''Invalid report format''
            else Inr True))"

subsection \<open>Report data\<close>

record report_info =
  title :: jsval
  description :: jsval
  generatedAt :: string
  dateRange_from :: "string option"
  dateRange_to :: "string option"
  vendor_code :: string
  vendor_name :: string
  vendor_environment :: string

record report_data =
  reportInfo :: report_info
  summary :: jsobj
  records :: "jsobj list"

text \<open>The table \<open>countries\<close> of the configuration manager, reduced to the currency.\<close>

definition country_currency :: "(string \<times> string) list" where
  "country_currency =
     [(''AE'', ''AED''), (''SA'', ''SAR''), (''KW'', ''KWD''), (''BH'', ''BHD''),
      (''OM'', ''OMR''), (''QA'', ''QAR''), (''JO'', ''JOD''), (''EG'', ''EGP'')]"

text \<open>\<open>window.configManager?.getCountryConfig()?.currency || 'AED'\<close>\<close>

definition currency_of :: "page \<Rightarrow> string" where
  "currency_of pg =
     (case configManager pg of
        None \<Rightarrow> ''AED''
      | Some cfg \<Rightarrow>
          str_or (map_of country_currency (if country cfg = [] then ''AE'' else country cfg))
            ''AED'')"

text \<open>\<open>window.configManager?.getCurrentConfig()?.remoteId || '123456'\<close>\<close>

definition remote_id_of :: "page \<Rightarrow> string" where
  "remote_id_of pg = str_or (map_option remoteId (configManager pg)) ''123456''"

text \<open>
  \<open>Math.ceil((toDate - fromDate) / (1000 * 60 * 60 * 24))\<close>, the day count of both order
  generators.
\<close>

definition daysDiff :: "page \<Rightarrow> report_params \<Rightarrow> int option" where
  "daysDiff pg params =
     map_option ceiling
       (days_between (new_Date pg (fromDate params)) (new_Date pg (toDate params)))"

text \<open>
  How often \<open>for (let i = 0; i < daysDiff * perDay; i++)\<close> runs: never when the day count is
  \<open>NaN\<close> or the product is not positive.
\<close>

definition loop_count :: "int option \<Rightarrow> int \<Rightarrow> nat" where
  "loop_count d perDay = (case d of None \<Rightarrow> 0 | Some k \<Rightarrow> nat (k * perDay))"

text \<open>
  \<open>Math.floor(Math.random() * n) + k\<close> on the \<open>j\<close>-th random number, in exact arithmetic
  (the engine rounds the product to a double before it takes the floor).
\<close>

definition random_int :: "page \<Rightarrow> nat \<Rightarrow> rat \<Rightarrow> int \<Rightarrow> int" where
  "random_int pg j n k = \<lfloor>Math_random pg j * n\<rfloor> + k"

text \<open>\<open>(Math.random() * 100 + 20).toFixed(2)\<close>\<close>

definition random_amount :: "page \<Rightarrow> nat \<Rightarrow> string" where
  "random_amount pg j = toFixed pg 2 (Some (Math_random pg j * 100 + 20))"

text \<open>
  The \<open>i\<close>-th completed order, built in the loop body from the random numbers
  \<open>1 + 7 i, ..., 7 + 7 i\<close> (number \<open>0\<close> chose the orders per day). The loop only runs when
  both dates are valid; \<open>f\<close> and \<open>t\<close> are their time values.
\<close>

definition completed_order :: "page \<Rightarrow> report_data \<Rightarrow> int \<Rightarrow> int \<Rightarrow> nat \<Rightarrow> jsobj" where
  "completed_order pg reportData f t i =
     (let orderDate = time_clip (of_int f + Math_random pg (1 + 7 * i) * of_int (t - f));
          completionTime =
            time_clip (of_int orderDate + Math_random pg (2 + 7 * i) * 60 * 60 * 1000)
      in [(''order_id'', JStr (''ORD'' @ show_int (Date_now pg) @ ''_'' @ show_nat i)),
          (''vendor_code'', JStr (vendor_code (reportInfo reportData))),
          (''remote_id'', JStr (remote_id_of pg)),
          (''order_date'', JStr (Date_toISOString pg orderDate)),
          (''completion_time'', JStr (Date_toISOString pg completionTime)),
          (''total_amount'', JStr (random_amount pg (3 + 7 * i))),
          (''currency'', JStr (currency_of pg)),
          (''customer_info'', JObject
             [(''masked_phone'',
                 JStr (''+971*****'' @ show_int (random_int pg (4 + 7 * i) 9000 1000))),
              (''area'', JStr (''Area '' @ show_int (random_int pg (5 + 7 * i) 10 1)))]),
          (''delivery_time_minutes'', jint (random_int pg (6 + 7 * i) 30 20)),
          (''rating'', jint (random_int pg (7 + 7 * i) 2 4))])"

text \<open>\<open>orders.reduce((sum, order) => sum + parseFloat(order[key]), 0)\<close>\<close>

definition sum_parsed :: "page \<Rightarrow> string \<Rightarrow> jsobj list \<Rightarrow> rat option" where
  "sum_parsed pg key orders =
     foldl (\<lambda>sum order. num_add sum (parseFloat_js pg (js_get order key))) (Some 0) orders"

text \<open>\<open>orders.reduce((sum, order) => sum + order[key], 0)\<close> on a numeric field.\<close>

definition sum_field :: "string \<Rightarrow> jsobj list \<Rightarrow> rat option" where
  "sum_field key orders =
     foldl (\<lambda>sum order. num_add sum (num_of (js_get order key))) (Some 0) orders"

definition generateCompletedOrdersReport ::
  "page \<Rightarrow> report_data \<Rightarrow> report_params \<Rightarrow> report_data" where
  "generateCompletedOrdersReport pg reportData params =
     (let fromDate = new_Date pg (fromDate params);
          toDate = new_Date pg (toDate params);
          ordersPerDay = random_int pg 0 20 10;
          n = loop_count (daysDiff pg params) ordersPerDay;
          sampleOrders =
            (case (fromDate, toDate) of
               (Some f, Some t) \<Rightarrow> map (completed_order pg reportData f t) [0..<n]
             | _ \<Rightarrow> []);
          len = Some (of_nat (length sampleOrders))
      in reportData
         \<lparr>records := sampleOrders,
          summary :=
            [(''total_orders'', jnat (length sampleOrders)),
             (''total_revenue'', JStr (toFixed pg 2 (sum_parsed pg ''total_amount'' sampleOrders))),
             (''average_order_value'',
                JStr (if length sampleOrders > 0
                      then toFixed pg 2 (num_div (sum_parsed pg ''total_amount'' sampleOrders) len)
                      else ''0.00'')),
             (''average_delivery_time'',
                (if length sampleOrders > 0
                 then JNum (map_option (\<lambda>x. of_int (Math_round x))
                        (num_div (sum_field ''delivery_time_minutes'' sampleOrders) len))
                 else jnat 0)),
             (''average_rating'',
                JStr (if length sampleOrders > 0
                      then toFixed pg 1 (num_div (sum_field ''rating'' sampleOrders) len)
                      else ''0.0''))]\<rparr>)"

definition cancellationReasons :: "string list" where
  "cancellationReasons =
     [''Customer Requested'', ''Restaurant Unavailable'', ''Out of Stock'', ''Delivery Issues'',
      ''Payment Failed'', ''Technical Error'']"

text \<open>\<open>xs[i]\<close> on an array of strings: \<open>undefined\<close> outside the array.\<close>

definition str_at :: "string list \<Rightarrow> int \<Rightarrow> jsval" where
  "str_at xs i = (if 0 \<le> i \<and> i < int (length xs) then JStr (xs ! nat i) else JUndefined)"

definition cancelled_order :: "page \<Rightarrow> report_data \<Rightarrow> int \<Rightarrow> int \<Rightarrow> nat \<Rightarrow> jsobj" where
  "cancelled_order pg reportData f t i =
     (let orderDate = time_clip (of_int f + Math_random pg (1 + 7 * i) * of_int (t - f));
          cancelledAt = time_clip (of_int orderDate + Math_random pg (2 + 7 * i) * 30 * 60 * 1000)
      in [(''order_id'', JStr (''CAN'' @ show_int (Date_now pg) @ ''_'' @ show_nat i)),
          (''vendor_code'', JStr (vendor_code (reportInfo reportData))),
          (''order_date'', JStr (Date_toISOString pg orderDate)),
          (''cancelled_at'', JStr (Date_toISOString pg cancelledAt)),
          (''total_amount'', JStr (random_amount pg (3 + 7 * i))),
          (''currency'', JStr (currency_of pg)),
          (''cancellation_reason'',
             str_at cancellationReasons
               (random_int pg (4 + 7 * i) (of_nat (length cancellationReasons)) 0)),
          (''cancelled_by'',
             JStr (if Math_random pg (5 + 7 * i) > 1 / 2 then ''customer'' else ''restaurant'')),
          (''refund_amount'', JStr (random_amount pg (6 + 7 * i))),
          (''refund_status'',
             JStr (if Math_random pg (7 + 7 * i) > 1 / 5 then ''processed'' else ''pending''))])"

text \<open>\<open>counts[key] = (counts[key] || 0) + 1\<close>\<close>

definition bump_count :: "page \<Rightarrow> jsobj \<Rightarrow> jsval \<Rightarrow> jsobj" where
  "bump_count pg counts key =
     (let k = String_js pg key; old = js_get counts k
      in js_set counts k
           (JNum (num_add (if js_truthy old then num_of old else Some 0) (Some 1))))"

text \<open>\<open>orders.filter(order => order[key] === s).length\<close>\<close>

definition count_where :: "string \<Rightarrow> string \<Rightarrow> jsobj list \<Rightarrow> nat" where
  "count_where key s orders = length (filter (\<lambda>order. js_get order key = JStr s) orders)"

definition generateCancelledOrdersReport ::
  "page \<Rightarrow> report_data \<Rightarrow> report_params \<Rightarrow> report_data" where
  "generateCancelledOrdersReport pg reportData params =
     (let fromDate = new_Date pg (fromDate params);
          toDate = new_Date pg (toDate params);
          cancelledPerDay = random_int pg 0 5 1;
          n = loop_count (daysDiff pg params) cancelledPerDay;
          sampleCancelled =
            (case (fromDate, toDate) of
               (Some f, Some t) \<Rightarrow> map (cancelled_order pg reportData f t) [0..<n]
             | _ \<Rightarrow> []);
          reasonCounts =
            foldl (\<lambda>counts order. bump_count pg counts (js_get order ''cancellation_reason''))
              [] sampleCancelled
      in reportData
         \<lparr>records := sampleCancelled,
          summary :=
            [(''total_cancelled'', jnat (length sampleCancelled)),
             (''total_refunded'',
                JStr (toFixed pg 2 (sum_parsed pg ''refund_amount'' sampleCancelled))),
             (''cancellation_reasons'', JObject reasonCounts),
             (''customer_cancelled'', jnat (count_where ''cancelled_by'' ''customer'' sampleCancelled)),
             (''restaurant_cancelled'',
                jnat (count_where ''cancelled_by'' ''restaurant'' sampleCancelled)),
             (''refunds_processed'',
                jnat (count_where ''refund_status'' ''processed'' sampleCancelled)),
             (''refunds_pending'',
                jnat (count_where ''refund_status'' ''pending'' sampleCancelled))]\<rparr>)"

text \<open>
  The performance report reads \<open>window.monitoringManager?.getMonitoringSummary() || {}\<close>:
  without a monitoring manager every metric is \<open>undefined\<close>, and a comparison with
  \<open>undefined\<close> or \<open>NaN\<close> is false.
\<close>

definition num_less :: "rat option \<Rightarrow> rat \<Rightarrow> bool" where
  "num_less a b = (case a of None \<Rightarrow> False | Some x \<Rightarrow> x < b)"

definition num_greater :: "rat option \<Rightarrow> rat \<Rightarrow> bool" where
  "num_greater a b = (case a of None \<Rightarrow> False | Some x \<Rightarrow> x > b)"

text \<open>\<open>x || d\<close> on a number that may be missing: zero and \<open>NaN\<close> are falsy.\<close>

definition num_or :: "rat option \<Rightarrow> rat \<Rightarrow> jsval" where
  "num_or a d = (case a of None \<Rightarrow> JNum (Some d) | Some x \<Rightarrow> JNum (Some (if x = 0 then d else x)))"

definition generatePerformanceRecommendations :: "monitoring_summary option \<Rightarrow> jsval" where
  "generatePerformanceRecommendations m =
     (let avg = (case m of None \<Rightarrow> None | Some s \<Rightarrow> ms_averageResponseTime s);
          sr = map_option ms_successRate m;
          recommendations =
            (if num_greater avg 1000 then [''Consider optimizing API response times''] else []) @
            (if num_less sr 95 then [''Investigate and resolve API failures''] else []) @
            (if num_greater (map_option (\<lambda>s. of_nat (ms_errorLogs s)) m) 0
             then [''Review and address system errors''] else [])
      in JArray (map JStr (if length recommendations > 0 then recommendations
                           else [''System performance is optimal''])))"

definition generatePerformanceReport ::
  "page \<Rightarrow> report_data \<Rightarrow> report_params \<Rightarrow> report_data" where
  "generatePerformanceReport pg reportData params =
     (let m = map_option getMonitoringSummary (monitoringManager pg);
          avg = (case m of None \<Rightarrow> None | Some s \<Rightarrow> ms_averageResponseTime s);
          sr = map_option ms_successRate m;
          up = map_option ms_uptime m
      in reportData
         \<lparr>records :=
            [[(''metric'', JStr ''API Response Time''),
              (''value'', num_or avg 0),
              (''unit'', JStr ''ms''),
              (''status'', JStr (if num_less avg 1000 then ''good'' else ''needs_attention''))],
             [(''metric'', JStr ''Success Rate''),
              (''value'', num_or sr 100),
              (''unit'', JStr ''%''),
              (''status'', JStr (if num_greater sr 95 then ''excellent''
                                 else if num_greater sr 90 then ''good'' else ''poor''))],
             [(''metric'', JStr ''Total API Calls''),
              (''value'', num_or (map_option (\<lambda>mm. of_nat (apiCalls (performanceData mm)))
                                   (monitoringManager pg)) 0),
              (''unit'', JStr ''calls''),
              (''status'', JStr ''info'')],
             [(''metric'', JStr ''Error Rate''),
              (''value'', (case sr of None \<Rightarrow> JNum (Some 0)
                           | Some x \<Rightarrow> JNum (Some (if x = 0 then 0 else 100 - x)))),
              (''unit'', JStr ''%''),
              (''status'', JStr (if num_greater sr 95 then ''excellent'' else ''needs_attention''))],
             [(''metric'', JStr ''System Uptime''),
              (''value'', JStr (str_or up ''Unknown'')),
              (''unit'', JStr ''status''),
              (''status'', JStr (if up = Some ''Active'' then ''excellent'' else ''warning''))]],
          summary :=
            [(''overall_performance'',
                JStr (if num_greater sr 95 \<and> num_less avg 1000 then ''Excellent''
                      else if num_greater sr 90 \<and> num_less avg 2000 then ''Good''
                      else ''Needs Improvement'')),
             (''recommendations'', generatePerformanceRecommendations m)]\<rparr>)"

text \<open>\<open>s.includes(sub)\<close>\<close>

fun str_includes :: "string \<Rightarrow> string \<Rightarrow> bool" where
  "str_includes [] sub = (sub = [])"
| "str_includes (c # cs) sub = (take (length sub) (c # cs) = sub \<or> str_includes cs sub)"

definition categorizeError :: "string \<Rightarrow> string" where
  "categorizeError msg =
     (if str_includes msg ''Authentication'' \<or> str_includes msg ''login'' then ''Authentication''
      else if str_includes msg ''Network'' \<or> str_includes msg ''fetch'' then ''Network''
      else if str_includes msg ''JSON'' \<or> str_includes msg ''parse'' then ''Data Format''
      else if str_includes msg ''timeout'' then ''Timeout''
      else if str_includes msg ''Permission'' \<or> str_includes msg ''access'' then ''Permission''
      else ''General'')"

text \<open>
  \<open>calculateErrorTrend\<close>: entries of the last hour against older ones; an entry whose
  time stamp is not a date is in neither group.
\<close>

definition calculateErrorTrend :: "page \<Rightarrow> log_entry list \<Rightarrow> string" where
  "calculateErrorTrend pg errorLogs =
     (let oneHourAgo = Date_now pg - 60 * 60 * 1000;
          recentErrors = filter (\<lambda>l. case Date_parse pg (timestamp l) of
                                        None \<Rightarrow> False | Some t \<Rightarrow> t > oneHourAgo) errorLogs;
          olderErrors = filter (\<lambda>l. case Date_parse pg (timestamp l) of
                                       None \<Rightarrow> False | Some t \<Rightarrow> t \<le> oneHourAgo) errorLogs
      in if length recentErrors > length olderErrors then ''increasing''
         else if length recentErrors < length olderErrors then ''decreasing''
         else ''stable'')"

text \<open>The \<open>details\<close> object of a log entry as a value (\<open>null\<close> when there is none).\<close>

definition status_val :: "nat option \<Rightarrow> jsval" where
  "status_val st = (case st of None \<Rightarrow> JUndefined | Some n \<Rightarrow> jnat n)"

fun details_val :: "log_details option \<Rightarrow> jsval" where
  "details_val None = JNull"
| "details_val (Some (ErrorLocation f l c)) =
     JObject [(''filename'', JStr f), (''lineno'', jnat l), (''colno'', jnat c)]"
| "details_val (Some (CallStarted i d)) =
     JObject [(''callId'', JNum (Some (case sd_callId d of None \<Rightarrow> i | Some j \<Rightarrow> j))),
              (''endpoint'', JStr (sd_endpoint d)), (''method'', JStr (sd_method d))]"
| "details_val (Some (CallEnded i rt st cd)) =
     JObject [(''callId'', JNum (Some i)), (''responseTime'', JNum (Some rt)),
              (''status'', status_val st), (''startTime'', JNum (Some (startTime cd))),
              (''endpoint'', JStr (call_endpoint cd)), (''method'', JStr (call_method cd))]"

text \<open>
  The grouping loop of the errors report: \<open>errorTypes[t]\<close> collects the entries of type
  \<open>t\<close>, the types in the order of their first entry.
\<close>

fun add_to_group :: "string \<Rightarrow> log_entry \<Rightarrow> (string \<times> log_entry list) list
    \<Rightarrow> (string \<times> log_entry list) list" where
  "add_to_group t l [] = [(t, [l])]"
| "add_to_group t l ((t', ls) # gs) =
     (if t' = t then (t', ls @ [l]) # gs else (t', ls) # add_to_group t l gs)"

definition group_errors :: "log_entry list \<Rightarrow> (string \<times> log_entry list) list" where
  "group_errors errorLogs = foldl (\<lambda>gs l. add_to_group (categorizeError (message l)) l gs) [] errorLogs"

text \<open>\<open>ls[0]?.field\<close> and \<open>ls[ls.length - 1]?.field\<close>\<close>

definition first_field :: "(log_entry \<Rightarrow> string) \<Rightarrow> log_entry list \<Rightarrow> jsval" where
  "first_field f ls = (case ls of [] \<Rightarrow> JUndefined | l # _ \<Rightarrow> JStr (f l))"

definition last_field :: "(log_entry \<Rightarrow> string) \<Rightarrow> log_entry list \<Rightarrow> jsval" where
  "last_field f ls = (if ls = [] then JUndefined else JStr (f (last ls)))"

definition error_summary_row :: "string \<times> log_entry list \<Rightarrow> jsobj" where
  "error_summary_row g =
     [(''error_type'', JStr (fst g)),
      (''count'', jnat (length (snd g))),
      (''first_occurrence'', first_field timestamp (snd g)),
      (''last_occurrence'', last_field timestamp (snd g)),
      (''sample_message'', first_field message (snd g))]"

text \<open>
  \<open>rows.reduce((max, current) => current.count > max.count ? current : max)\<close> on a
  non-empty array.
\<close>

definition most_common :: "jsobj list \<Rightarrow> jsval" where
  "most_common rows =
     (case rows of
        [] \<Rightarrow> JNull
      | r # rs \<Rightarrow>
          JObject (foldl (\<lambda>mx cur.
              if (case (num_of (js_get cur ''count''), num_of (js_get mx ''count'')) of
                    (Some a, Some b) \<Rightarrow> a > b | _ \<Rightarrow> False)
              then cur else mx) r rs))"

definition generateErrorsReport ::
  "page \<Rightarrow> report_data \<Rightarrow> report_params \<Rightarrow> report_data" where
  "generateErrorsReport pg reportData params =
     (let all_logs = (case monitoringManager pg of None \<Rightarrow> [] | Some m \<Rightarrow> logs m);
          errorLogs = filter (\<lambda>l. level l = ''error'') all_logs;
          errorTypes = group_errors errorLogs;
          errorSummary = map error_summary_row errorTypes
      in reportData
         \<lparr>records :=
            map (\<lambda>l. [(''timestamp'', JStr (timestamp l)),
                      (''error_type'', JStr (categorizeError (message l))),
                      (''message'', JStr (message l)),
                      (''module'', JStr (module l)),
                      (''details'', details_val (details l))]) errorLogs,
          summary :=
            [(''total_errors'', jnat (length errorLogs)),
             (''unique_error_types'', jnat (length errorTypes)),
             (''error_types_summary'', JArray (map JObject errorSummary)),
             (''error_trend'', JStr (calculateErrorTrend pg errorLogs)),
             (''most_common_error'', most_common errorSummary)]\<rparr>)"

text \<open>
  \<open>orders.sort((a, b) => new Date(b.order_date) - new Date(a.order_date))\<close>: a stable
  sort, latest order first; a comparison with an invalid date counts as a tie.
\<close>

definition date_of :: "page \<Rightarrow> jsval \<Rightarrow> int option" where
  "date_of pg v = (case v of JStr s \<Rightarrow> Date_parse pg s | _ \<Rightarrow> None)"

definition order_after :: "page \<Rightarrow> jsobj \<Rightarrow> jsobj \<Rightarrow> bool" where
  "order_after pg a b =
     (case (date_of pg (js_get b ''order_date''), date_of pg (js_get a ''order_date'')) of
        (Some tb, Some ta) \<Rightarrow> tb - ta > 0
      | _ \<Rightarrow> False)"

fun insert_order :: "page \<Rightarrow> jsobj \<Rightarrow> jsobj list \<Rightarrow> jsobj list" where
  "insert_order pg a [] = [a]"
| "insert_order pg a (b # bs) =
     (if order_after pg a b then b # insert_order pg a bs else a # b # bs)"

definition sort_orders :: "page \<Rightarrow> jsobj list \<Rightarrow> jsobj list" where
  "sort_orders pg orders = foldr (insert_order pg) orders []"

text \<open>
  The report of all orders runs both order generators, the second one on the random
  numbers the first one left.
\<close>

definition percent :: "page \<Rightarrow> nat \<Rightarrow> nat \<Rightarrow> string" where
  "percent pg a b = toFixed pg 1 (Some ((of_nat a / of_nat b) * 100)) @ ''%''"

definition generateAllOrdersReport ::
  "page \<Rightarrow> report_data \<Rightarrow> report_params \<Rightarrow> report_data" where
  "generateAllOrdersReport pg reportData params =
     (let completedData = generateCompletedOrdersReport pg reportData params;
          used = 1 + 7 * length (records completedData);
          cancelledData =
            generateCancelledOrdersReport (pg\<lparr>Math_random := (\<lambda>k. Math_random pg (used + k))\<rparr>)
              reportData params;
          allOrders = sort_orders pg
            (map (\<lambda>order. js_set order ''status'' (JStr ''completed'')) (records completedData) @
             map (\<lambda>order. js_set order ''status'' (JStr ''cancelled'')) (records cancelledData))
      in reportData
         \<lparr>records := allOrders,
          summary :=
            [(''total_orders'', jnat (length allOrders)),
             (''completed_orders'', jnat (length (records completedData))),
             (''cancelled_orders'', jnat (length (records cancelledData))),
             (''completion_rate'',
                JStr (if length allOrders > 0
                      then percent pg (length (records completedData)) (length allOrders)
                      else ''0%'')),
             (''total_revenue'', js_get (summary completedData) ''total_revenue''),
             (''total_refunded'', js_get (summary cancelledData) ''total_refunded'')]\<rparr>)"

text \<open>
  \<open>createReportData\<close>. The template is read with \<open>reportTemplates[params.type]\<close>; reading
  \<open>name\<close> from \<open>undefined\<close> throws a type error (\<open>Inl\<close>). A type without a \<open>case\<close> of its own
  leaves the report empty.
\<close>

definition createReportData :: "page \<Rightarrow> report_params \<Rightarrow> string + report_data" where
  "createReportData pg params =
     (let tmpl = js_get reportTemplates (type params) in
      if tmpl = JUndefined
      then Inl ''Cannot read properties of undefined''
      else
        (let reportData =
           \<lparr>reportInfo =
              \<lparr>title = js_prop tmpl ''name'',
               description = js_prop tmpl ''description'',
               generatedAt = Date_toISOString pg (Date_now pg),
               dateRange_from = fromDate params,
               dateRange_to = toDate params,
               vendor_code = str_or (map_option vendorCode (configManager pg)) ''N/A'',
               vendor_name = str_or (map_option integrationName (configManager pg)) ''N/A'',
               vendor_environment =
                 str_or (map_option environment (configManager pg)) ''staging''\<rparr>,
            summary = [],
            records = []\<rparr>
         in Inr (if type params = ''completed''
                 then generateCompletedOrdersReport pg reportData params
                 else if type params = ''cancelled''
                 then generateCancelledOrdersReport pg reportData params
                 else if type params = ''performance''
                 then generatePerformanceReport pg reportData params
                 else if type params = ''errors''
                 then generateErrorsReport pg reportData params
                 else if type params = ''all''
                 then generateAllOrdersReport pg reportData params
                 else reportData)))"

subsection \<open>Formatting\<close>

text \<open>The report as one value, as \<open>JSON.stringify\<close> receives it.\<close>

definition opt_str :: "string option \<Rightarrow> jsval" where
  "opt_str a = (case a of None \<Rightarrow> JUndefined | Some s \<Rightarrow> JStr s)"

definition report_val :: "report_data \<Rightarrow> jsval" where
  "report_val rd =
     JObject
       [(''reportInfo'', JObject
           [(''title'', title (reportInfo rd)),
            (''description'', description (reportInfo rd)),
            (''generatedAt'', JStr (generatedAt (reportInfo rd))),
            (''dateRange'', JObject [(''from'', opt_str (dateRange_from (reportInfo rd))),
                                     (''to'', opt_str (dateRange_to (reportInfo rd)))]),
            (''vendor'', JObject [(''code'', JStr (vendor_code (reportInfo rd))),
                                  (''name'', JStr (vendor_name (reportInfo rd))),
                                  (''environment'', JStr (vendor_environment (reportInfo rd)))])]),
        (''summary'', JObject (summary rd)),
        (''records'', JArray (map JObject (records rd)))]"

text \<open>
  The columns of the CSV text: the keys of every record whose value there is not of type
  \<open>object\<close>, or is \<open>null\<close>, collected in a set and sorted.
\<close>

definition scalar_keys :: "jsobj \<Rightarrow> string list" where
  "scalar_keys rec =
     filter (\<lambda>key. typeof (js_get rec key) \<noteq> ''object'' \<or> js_get rec key = JNull) (map fst rec)"

definition add_column :: "string list \<Rightarrow> string \<Rightarrow> string list" where
  "add_column columns key = (if key \<in> set columns then columns else columns @ [key])"

definition csv_columns :: "jsobj list \<Rightarrow> string list" where
  "csv_columns recs = sort (foldl (\<lambda>columns rec. foldl add_column columns (scalar_keys rec)) [] recs)"

text \<open>\<open>s.replace(/"/g, '""')\<close>\<close>

definition csv_escape :: "string \<Rightarrow> string" where
  "csv_escape s = concat (map (\<lambda>c. if c = CHR 0x22 then [CHR 0x22, CHR 0x22] else [c]) s)"

definition csv_cell :: "page \<Rightarrow> jsobj \<Rightarrow> string \<Rightarrow> string" where
  "csv_cell pg rec column =
     (let v = js_get rec column
      in if v = JNull \<or> v = JUndefined then []
         else dquote @ csv_escape (String_js pg v) @ dquote)"

definition formatAsCSV :: "page \<Rightarrow> report_data \<Rightarrow> string" where
  "formatAsCSV pg reportData =
     (if length (records reportData) = 0 then ''No data available''
      else
        (let columnArray = csv_columns (records reportData)
         in join newline
              (join '','' columnArray #
               map (\<lambda>rec. join '','' (map (csv_cell pg rec) columnArray)) (records reportData))))"

text \<open>The plain text that stands for a PDF.\<close>

definition formatAsPDF :: "page \<Rightarrow> report_data \<Rightarrow> string" where
  "formatAsPDF pg reportData =
     String_js pg (title (reportInfo reportData)) @ newline @
     ''Generated: '' @ generatedAt (reportInfo reportData) @ newline @
     ''Date Range: '' @ String_js pg (opt_str (dateRange_from (reportInfo reportData))) @ '' to '' @
        String_js pg (opt_str (dateRange_to (reportInfo reportData))) @ newline @ newline @
     ''SUMMARY:'' @ newline @
     concat (map (\<lambda>key. key @ '': '' @ JSON_stringify pg 0 (js_get (summary reportData) key) @ newline)
               (map fst (summary reportData))) @
     newline @ ''DETAILS:'' @ newline @
     concat (map (\<lambda>(index, rec).
                ''Record '' @ show_nat (index + 1) @ '':'' @ newline @
                concat (map (\<lambda>key. ''  '' @ key @ '': '' @ String_js pg (js_get rec key) @ newline)
                          (map fst rec)) @
                newline)
             (enumerate 0 (records reportData)))"

definition formatReport :: "page \<Rightarrow> report_data \<Rightarrow> string \<Rightarrow> string" where
  "formatReport pg reportData fmt =
     (if fmt = ''json'' then JSON_stringify pg 2 (report_val reportData)
      else if fmt = ''csv'' then formatAsCSV pg reportData
      else if fmt = ''pdf'' then formatAsPDF pg reportData
      else JSON_stringify pg 2 (report_val reportData))"

text \<open>\<open>new Blob([content]).size\<close>: the length in UTF-8.\<close>

definition estimateFileSize :: "string \<Rightarrow> nat" where
  "estimateFileSize content = sum_list (map (\<lambda>c. if (of_char c :: nat) < 128 then 1 else 2) content)"

fun unit_index :: "nat \<Rightarrow> nat" where
  "unit_index n = (if n < 1024 then 0 else 1 + unit_index (n div 1024))"

declare unit_index.simps [simp del]

definition formatFileSize :: "page \<Rightarrow> nat \<Rightarrow> string" where
  "formatFileSize pg bytes =
     (if bytes = 0 then ''0 Bytes''
      else
        (let i = unit_index bytes
         in String_js pg (JNum (parseFloat pg (toFixed pg 2 (Some (of_nat bytes / 1024 ^ i))))) @
            '' '' @ String_js pg (str_at [''Bytes'', ''KB'', ''MB'', ''GB''] (int i))))"

subsection \<open>Generating a report\<close>

record history_entry =
  h_id :: int
  h_type :: string
  h_format :: string
  h_from :: "string option"
  h_to :: "string option"
  h_generatedAt :: string
  recordCount :: nat
  fileSize :: nat

record download =
  filename :: string
  mimeType :: string
  content :: string

text \<open>A line of the result box: the text after the check mark or after the cross.\<close>

datatype result_line = Check string | Cross string

record reports_manager =
  reportHistory :: "history_entry list"

text \<open>
  What one run of \<open>generateReport\<close> leaves: the manager, the lines handed to
  \<open>showResults\<close>, the file handed to the browser and the message and level handed to
  \<open>logActivity\<close>.
\<close>

record report_outcome =
  manager :: reports_manager
  shown :: "result_line list"
  delivered :: "download option"
  activity :: "string \<times> string"

definition toUpperCase :: "string \<Rightarrow> string" where
  "toUpperCase s =
     map (\<lambda>c. if 97 \<le> (of_char c :: nat) \<and> (of_char c :: nat) \<le> 122
               then char_of ((of_char c :: nat) - 32) else c) s"

definition deliverReport :: "page \<Rightarrow> string \<Rightarrow> report_params \<Rightarrow> download" where
  "deliverReport pg formattedReport params =
     (let stamp = map (\<lambda>c. if c = CHR '':'' \<or> c = CHR ''.'' then CHR ''-'' else c)
                    (Date_toISOString pg (Date_now pg))
      in \<lparr>filename = ''talabat-pos-'' @ type params @ ''-report-'' @ stamp @ ''.'' @ format params,
          mimeType = (if format params = ''json'' then ''application/json''
                      else if format params = ''csv'' then ''text/csv''
                      else ''text/plain''),
          content = formattedReport\<rparr>)"

definition template_name :: "page \<Rightarrow> string \<Rightarrow> string" where
  "template_name pg t = String_js pg (js_prop (js_get reportTemplates t) ''name'')"

definition showReportResults :: "page \<Rightarrow> history_entry \<Rightarrow> result_line list" where
  "showReportResults pg reportRecord =
     [Check ''Report generated successfully'',
      Check (''Report type: '' @ template_name pg (h_type reportRecord)),
      Check (''Date range: '' @ String_js pg (opt_str (h_from reportRecord)) @ '' to '' @
               String_js pg (opt_str (h_to reportRecord))),
      Check (''Format: '' @ toUpperCase (h_format reportRecord)),
      Check (''Records: '' @ show_nat (recordCount reportRecord)),
      Check (''File size: '' @ formatFileSize pg (fileSize reportRecord)),
      Check ''Report downloaded successfully'']"

text \<open>
  The \<open>try\<close> block of \<open>generateReport\<close> up to the formatted report: an exception is
  \<open>Inl\<close> with its message.
\<close>

definition prepare_report :: "page \<Rightarrow> report_params \<Rightarrow> string + (report_data \<times> string)" where
  "prepare_report pg params =
     (case validateReportParameters pg params of
        Inl msg \<Rightarrow> Inl msg
      | Inr ok \<Rightarrow>
          if \<not> ok then Inl ''Invalid report parameters''
          else
            (case createReportData pg params of
               Inl msg \<Rightarrow> Inl msg
             | Inr reportData \<Rightarrow> Inr (reportData, formatReport pg reportData (format params))))"

definition generateReport :: "page \<Rightarrow> report_form \<Rightarrow> reports_manager \<Rightarrow> report_outcome" where
  "generateReport pg form mgr =
     (let params = getReportParameters form in
      case prepare_report pg params of
        Inr (reportData, formattedReport) \<Rightarrow>
          (let reportRecord =
             \<lparr>h_id = Date_now pg, h_type = type params, h_format = format params,
              h_from = fromDate params, h_to = toDate params,
              h_generatedAt = Date_toISOString pg (Date_now pg),
              recordCount = length (records reportData),
              fileSize = estimateFileSize formattedReport\<rparr>
           in \<lparr>manager = mgr\<lparr>reportHistory := reportHistory mgr @ [reportRecord]\<rparr>,
               shown = showReportResults pg reportRecord,
               delivered = Some (deliverReport pg formattedReport params),
               activity = (''Report generated successfully: '' @ template_name pg (type params),
                           ''success'')\<rparr>)
      | Inl msg \<Rightarrow>
          \<lparr>manager = mgr,
           shown = [Cross (''Report generation failed: '' @ msg)],
           delivered = None,
           activity = (''Report generation failed: '' @ msg, ''error'')\<rparr>)"

subsection \<open>Notions used to state the properties of the reports\<close>

text \<open>
  The scalar keys of a record list, in the words of the specification: the keys that some
  record holds with a value that is not an object (\<open>null\<close> counts as a scalar).
\<close>

definition scalar_key_set :: "jsobj list \<Rightarrow> string set" where
  "scalar_key_set recs =
     {key. \<exists>rec \<in> set recs. key \<in> fst ` set rec \<and>
             (typeof (js_get rec key) \<noteq> ''object'' \<or> js_get rec key = JNull)}"

text \<open>\<open>line.split(sep)\<close> on a separator of one character: the columns of a line.\<close>

fun split_on :: "char \<Rightarrow> string \<Rightarrow> string list" where
  "split_on sep [] = [[]]"
| "split_on sep (c # cs) =
     (if c = sep then [] # split_on sep cs
      else (case split_on sep cs of [] \<Rightarrow> [[c]] | x # xs \<Rightarrow> (c # x) # xs))"

text \<open>Reading a quoted field back: every doubled quote is one quote.\<close>

fun csv_unescape :: "string \<Rightarrow> string" where
  "csv_unescape (a # b # cs) =
     (if a = CHR 0x22 \<and> b = CHR 0x22 then a # csv_unescape cs else a # csv_unescape (b # cs))"
| "csv_unescape cs = cs"

section \<open>Stand-ins for the built-in functions\<close>

text \<open>
  The theorems below hold for every page. Their examples run on the following page, whose
  built-in functions are simple stand-ins: dates in the ISO forms \<open>YYYY-MM-DD\<close> and
  \<open>YYYY-MM-DDTHH:MM:SS.mmmZ\<close> of the proleptic Gregorian calendar, decimal numerals
  without exponent, and JSON text with the escapes of the double quote and the backslash.
\<close>

definition digit_of :: "char \<Rightarrow> nat option" where
  "digit_of c =
     (if 48 \<le> (of_char c :: nat) \<and> (of_char c :: nat) \<le> 57
      then Some ((of_char c :: nat) - 48) else None)"

fun digits_value :: "nat \<Rightarrow> string \<Rightarrow> nat option" where
  "digits_value acc [] = Some acc"
| "digits_value acc (c # cs) =
     (case digit_of c of None \<Rightarrow> None | Some d \<Rightarrow> digits_value (10 * acc + d) cs)"

definition number_at :: "string \<Rightarrow> nat \<Rightarrow> nat \<Rightarrow> nat option" where
  "number_at s i n =
     (if i + n \<le> length s \<and> 0 < n then digits_value 0 (take n (drop i s)) else None)"

text \<open>The number of days from 1970-01-01 to a calendar date.\<close>

definition days_from_civil :: "int \<Rightarrow> int \<Rightarrow> int \<Rightarrow> int" where
  "days_from_civil y m d =
     (let y' = (if m \<le> 2 then y - 1 else y);
          era = y' div 400;
          yoe = y' - era * 400;
          doy = (153 * (if m > 2 then m - 3 else m + 9) + 2) div 5 + d - 1;
          doe = yoe * 365 + yoe div 4 - yoe div 100 + doy
      in era * 146097 + doe - 719468)"

text \<open>The calendar date (year, month, day) of a day number.\<close>

definition civil_from_days :: "int \<Rightarrow> int \<times> int \<times> int" where
  "civil_from_days z0 =
     (let z = z0 + 719468;
          era = z div 146097;
          doe = z - era * 146097;
          yoe = (doe - doe div 1460 + doe div 36524 - doe div 146096) div 365;
          doy = doe - (365 * yoe + yoe div 4 - yoe div 100);
          mp = (5 * doy + 2) div 153;
          d = doy - (153 * mp + 2) div 5 + 1;
          m = (if mp < 10 then mp + 3 else mp - 9)
      in (yoe + era * 400 + (if m \<le> 2 then 1 else 0), m, d))"

definition opt_all :: "nat option list \<Rightarrow> nat list option" where
  "opt_all xs = (if list_all (\<lambda>x. x \<noteq> None) xs then Some (map the xs) else None)"

definition iso_parse :: "string \<Rightarrow> int option" where
  "iso_parse s =
     (if length s = 10 \<and> s ! 4 = CHR ''-'' \<and> s ! 7 = CHR ''-''
      then (case opt_all [number_at s 0 4, number_at s 5 2, number_at s 8 2] of
              Some [y, m, d] \<Rightarrow>
                if 1 \<le> m \<and> m \<le> 12 \<and> 1 \<le> d \<and> d \<le> 31
                then Some (days_from_civil (int y) (int m) (int d) * 86400000) else None
            | _ \<Rightarrow> None)
      else if length s = 24 \<and> s ! 4 = CHR ''-'' \<and> s ! 7 = CHR ''-'' \<and> s ! 10 = CHR ''T'' \<and>
              s ! 13 = CHR '':'' \<and> s ! 16 = CHR '':'' \<and> s ! 19 = CHR ''.'' \<and> s ! 23 = CHR ''Z''
      then (case opt_all [number_at s 0 4, number_at s 5 2, number_at s 8 2, number_at s 11 2,
                          number_at s 14 2, number_at s 17 2, number_at s 20 3] of
              Some [y, m, d, hh, mm, ss, ms] \<Rightarrow>
                if 1 \<le> m \<and> m \<le> 12 \<and> 1 \<le> d \<and> d \<le> 31 \<and> hh < 24 \<and> mm < 60 \<and> ss < 60
                then Some (days_from_civil (int y) (int m) (int d) * 86400000 +
                           ((int hh * 60 + int mm) * 60 + int ss) * 1000 + int ms)
                else None
            | _ \<Rightarrow> None)
      else None)"

text \<open>A natural number in decimal, padded with zeros to a width.\<close>

definition pad :: "nat \<Rightarrow> nat \<Rightarrow> string" where
  "pad w n = replicate (w - length (show_nat n)) CHR ''0'' @ show_nat n"

definition iso_string :: "int \<Rightarrow> string" where
  "iso_string t =
     (let days = t div 86400000;
          ms = t mod 86400000;
          (y, m, d) = civil_from_days days
      in pad 4 (nat y) @ ''-'' @ pad 2 (nat m) @ ''-'' @ pad 2 (nat d) @ ''T'' @
         pad 2 (nat (ms div 3600000)) @ '':'' @ pad 2 (nat (ms div 60000 mod 60)) @ '':'' @
         pad 2 (nat (ms div 1000 mod 60)) @ ''.'' @ pad 3 (nat (ms mod 1000)) @ ''Z'')"

text \<open>A number with a fixed count of decimals, rounded to the nearest, a tie going up.\<close>

definition fixed :: "nat \<Rightarrow> rat \<Rightarrow> string" where
  "fixed d x =
     (let n = \<lfloor>\<bar>x\<bar> * 10 ^ d + 1 / 2\<rfloor>
      in (if x < 0 then ''-'' else []) @ show_int (n div 10 ^ d) @
         (if d = 0 then [] else ''.'' @ pad d (nat (n mod 10 ^ d))))"

text \<open>The value of a decimal numeral: an optional sign, digits, an optional fraction.\<close>

definition decimal_value :: "string \<Rightarrow> rat option" where
  "decimal_value s =
     (let neg = (s \<noteq> [] \<and> hd s = CHR ''-'');
          body = (if neg then tl s else s);
          whole = takeWhile (\<lambda>c. c \<noteq> CHR ''.'') body;
          rest = drop (length whole) body;
          frac = (if rest = [] then [] else tl rest)
      in if whole = [] then None
         else (case (digits_value 0 whole, digits_value 0 frac) of
                 (Some w, Some f) \<Rightarrow>
                   Some ((if neg then - 1 else 1) * (of_nat w + of_nat f / 10 ^ length frac))
               | _ \<Rightarrow> None))"

text \<open>A number as text: an integer in decimal, any other number with two decimals.\<close>

definition number_string :: "rat \<Rightarrow> string" where
  "number_string x = (if of_int \<lfloor>x\<rfloor> = x then show_int \<lfloor>x\<rfloor> else fixed 2 x)"

text \<open>
  The JSON text of a value with an indentation of \<open>gap\<close> spaces per level (none and no
  line feeds when \<open>gap\<close> is zero). A property whose value is \<open>undefined\<close> or a function
  is left out, such an element of an array is \<open>null\<close>; of the characters of a string only
  the double quote and the backslash are escaped.
\<close>

definition json_string :: "string \<Rightarrow> string" where
  "json_string s =
     dquote @
     concat (map (\<lambda>c. if c = CHR 0x22 \<or> c = CHR 0x5C then [CHR 0x5C, c] else [c]) s) @
     dquote"

definition json_block :: "nat \<Rightarrow> nat \<Rightarrow> string \<Rightarrow> string \<Rightarrow> string list \<Rightarrow> string" where
  "json_block gap lvl opening closing items =
     (if items = [] then opening @ closing
      else if gap = 0 then opening @ join '','' items @ closing
      else opening @ newline @
           join ('','' @ newline) (map (\<lambda>item. replicate (gap * Suc lvl) CHR '' '' @ item) items) @
           newline @ replicate (gap * lvl) CHR '' '' @ closing)"

fun json_text :: "nat \<Rightarrow> nat \<Rightarrow> jsval \<Rightarrow> string" where
  "json_text gap lvl JUndefined = ''null''"
| "json_text gap lvl JNull = ''null''"
| "json_text gap lvl (JBool b) = (if b then ''true'' else ''false'')"
| "json_text gap lvl (JNum n) = (case n of None \<Rightarrow> ''null'' | Some r \<Rightarrow> number_string r)"
| "json_text gap lvl (JStr s) = json_string s"
| "json_text gap lvl (JObject ps) =
     json_block gap lvl ''{'' ''}''
       (map (\<lambda>p. json_string (fst p) @ (if gap = 0 then '':'' else '': '') @
                  json_text gap (Suc lvl) (snd p))
          (filter (\<lambda>p. snd p \<noteq> JUndefined \<and> typeof (snd p) \<noteq> ''function'') ps))"
| "json_text gap lvl (JArray xs) =
     json_block gap lvl ''['' '']'' (map (json_text gap (Suc lvl)) xs)"
| "json_text gap lvl (JFunction f) = ''null''"

definition json_stringify :: "nat \<Rightarrow> jsval \<Rightarrow> string" where
  "json_stringify gap v =
     (if v = JUndefined \<or> typeof v = ''function'' then ''undefined'' else json_text gap 0 v)"

definition demo_random :: "nat \<Rightarrow> rat" where
  "demo_random k = of_nat ((37 * k + 11) mod 100) / 100"

definition demo_page :: page where
  "demo_page =
     \<lparr>Date_parse = iso_parse,
      Date_toISOString = iso_string,
      Date_now = 1704110400000,
      Math_random = demo_random,
      Number_toFixed = fixed,
      Number_toString = number_string,
      parseFloat = decimal_value,
      JSON_stringify = json_stringify,
      configManager = Some demo_config,
      monitoringManager = None\<rparr>"

text \<open>The requests and pages of the examples.\<close>

definition january :: report_params where
  "january = \<lparr>fromDate = Some ''2024-01-01'', toDate = Some ''2024-01-31'',
              type = ''completed'', format = ''json''\<rparr>"

definition new_year :: report_params where
  "new_year = \<lparr>fromDate = Some ''2024-01-01'', toDate = Some ''2024-01-01'',
               type = ''cancelled'', format = ''csv''\<rparr>"

definition january_form :: "string \<Rightarrow> string \<Rightarrow> report_form" where
  "january_form t f = \<lparr>reportFromDate = Some ''2024-01-01'', reportToDate = Some ''2024-01-31'',
                       reportType = Some t, reportFormat = Some f\<rparr>"

definition no_history :: reports_manager where
  "no_history = \<lparr>reportHistory = []\<rparr>"

text \<open>
  A page whose monitoring manager holds one error entry without details, as \<open>addLog\<close>
  stores it.
\<close>

definition network_error :: log_entry where
  "network_error =
     \<lparr>entry_id = 1704110400000 + 1 / 4, timestamp = ''2024-01-01T12:00:00.000Z'',
      level = ''error'', message = ''Network down'', module = ''Global'', details = None\<rparr>"

definition error_page :: page where
  "error_page =
     demo_page\<lparr>monitoringManager := Some (constructed\<lparr>logs := [network_error]\<rparr>)\<rparr>"

definition sample_report :: report_data where
  "sample_report =
     \<lparr>reportInfo =
        \<lparr>title = JStr ''Sample'', description = JUndefined,
         generatedAt = ''2024-01-01T12:00:00.000Z'', dateRange_from = None,
         dateRange_to = None, vendor_code = ''DEMO001'', vendor_name = ''Demo POS UAE'',
         vendor_environment = ''staging''\<rparr>,
      summary = [],
      records =
        [[(''name'', JStr (''6 '' @ dquote @ ''wide'' @ dquote)), (''count'', jnat 2),
          (''info'', JObject [(''area'', JStr ''Area 1'')])],
         [(''info'', JStr ''none''), (''note'', JNull)]]\<rparr>"

text \<open>A request whose two dates are the same text, which is not a date.\<close>

definition someday :: report_params where
  "someday = \<lparr>fromDate = Some ''someday'', toDate = Some ''someday'',
              type = ''completed'', format = ''json''\<rparr>"

text \<open>
  Three record lists: a key that holds a comma, a record with no scalar key, and a
  record that lacks a key named like an inherited function.
\<close>

definition comma_key_report :: report_data where
  "comma_key_report = sample_report\<lparr>records := [[(''a,b'', jnat 1)]]\<rparr>"

definition object_only_report :: report_data where
  "object_only_report = sample_report\<lparr>records := [[(''info'', JObject [])]]\<rparr>"

definition inherited_key_report :: report_data where
  "inherited_key_report =
     sample_report\<lparr>records := [[(''toString'', JStr ''x'')], [(''area'', JStr ''y'')]]\<rparr>"

section \<open>Properties of the monitoring module\<close>

subsection \<open>Bounded lists\<close>

lemma slice_from_end_length: "0 < n \<Longrightarrow> length (slice_from_end n xs) \<le> n"
  by (simp add: slice_from_end_def)

lemma push_point_length: "0 < cap \<Longrightarrow> length (push_point cap p ps) \<le> cap"
  by (simp add: push_point_def Let_def slice_from_end_def)

lemma updateErrorRate_bounded: "bounded_by L M s \<Longrightarrow> bounded_by L M (updateErrorRate c s)"
  by (auto simp add: bounded_by_def within_bounds_def updateErrorRate_def Let_def push_point_length)

lemma updateSuccessRate_bounded: "bounded_by L M s \<Longrightarrow> bounded_by L M (updateSuccessRate c s)"
  by (auto simp add: bounded_by_def within_bounds_def updateSuccessRate_def Let_def push_point_length)

lemma bounded_logs_update:
  "bounded_by L M s \<Longrightarrow> length l \<le> L \<Longrightarrow> bounded_by L M (s\<lparr>logs := l\<rparr>)"
  by (simp add: bounded_by_def within_bounds_def)

lemma bounded_performanceData_update:
  "bounded_by L M s \<Longrightarrow> bounded_by L M (s\<lparr>performanceData := pd\<rparr>)"
  by (simp add: bounded_by_def within_bounds_def)

lemma bounded_tracker_update:
  "bounded_by L M s \<Longrightarrow> bounded_by L M (s\<lparr>apiCallTracker := t\<rparr>)"
  by (simp add: bounded_by_def within_bounds_def)

lemma bounded_responseTime_update:
  "bounded_by L M s \<Longrightarrow>
   bounded_by L M (s\<lparr>performanceData := pd,
      metrics := (metrics s)\<lparr>responseTime :=
        push_point (maxMetricPoints s) p (responseTime (metrics s))\<rparr>\<rparr>)"
  by (auto simp add: bounded_by_def within_bounds_def push_point_length)

lemma addLog_bounded:
  assumes b: "bounded_by L M s"
  shows "bounded_by L M (addLog c e s)"
proof -
  let ?pushed = "logs s @ [make_entry c e]"
  let ?kept = "if length ?pushed > maxLogEntries s
               then slice_from_end (maxLogEntries s) ?pushed else ?pushed"
  have "length ?kept \<le> L"
    using b by (auto simp add: bounded_by_def slice_from_end_def)
  with b have "bounded_by L M (s\<lparr>logs := ?kept\<rparr>)"
    by (rule bounded_logs_update)
  then show ?thesis
    unfolding addLog_def Let_def
    by (auto intro!: updateErrorRate_bounded bounded_performanceData_update)
qed

lemma trackAPICallStart_bounded:
  "bounded_by L M s \<Longrightarrow> bounded_by L M (trackAPICallStart c d s)"
  unfolding trackAPICallStart_def Let_def
  by (intro addLog_bounded bounded_tracker_update bounded_performanceData_update)

lemma trackAPICallEnd_bounded:
  "bounded_by L M s \<Longrightarrow> bounded_by L M (trackAPICallEnd c d s)"
  unfolding trackAPICallEnd_def Let_def
  by (auto split: option.splits
      intro!: updateSuccessRate_bounded bounded_tracker_update addLog_bounded
        bounded_responseTime_update)

lemma clearLogs_bounded: "bounded_by L M s \<Longrightarrow> bounded_by L M (clearLogs c s)"
  unfolding clearLogs_def by (intro addLog_bounded bounded_logs_update) simp_all

lemma apply_op_bounded: "bounded_by L M s \<Longrightarrow> bounded_by L M (apply_op x s)"
  by (cases x)
    (simp_all add: addLog_bounded trackAPICallStart_bounded trackAPICallEnd_bounded
      updateSuccessRate_bounded updateErrorRate_bounded clearLogs_bounded)

lemma run_ops_bounded: "bounded_by L M s \<Longrightarrow> bounded_by L M (run_ops xs s)"
  by (induction xs arbitrary: s) (simp_all add: apply_op_bounded)

text \<open>
  A new entry goes to the end of the log list; once the list is full the oldest entry
  makes room for it.
\<close>

lemma addLog_length:
  "0 < maxLogEntries s \<Longrightarrow>
   length (logs (addLog c e s)) = min (maxLogEntries s) (Suc (length (logs s)))"
  by (simp add: addLog_def updateErrorRate_def Let_def slice_from_end_def)

lemma addLog_last:
  "0 < maxLogEntries s \<Longrightarrow> last (logs (addLog c e s)) = make_entry c e"
  by (simp add: addLog_def updateErrorRate_def Let_def slice_from_end_def)

text \<open>
  Claim C3. Starting from a state with the constructor's caps (1000 log entries, 50 metric
  points) whose lists respect them, every sequence of \<open>addLog\<close>, \<open>trackAPICallEnd\<close>,
  \<open>updateSuccessRate\<close> and \<open>updateErrorRate\<close> operations (and of \<open>trackAPICallStart\<close> and
  \<open>clearLogs\<close> as well) leaves at most 1000 log entries and at most 50 points in each
  of the response-time, success-rate and error-rate series.
\<close>

theorem monitoring_lists_bounded:
  assumes "maxLogEntries s = 1000" and "maxMetricPoints s = 50" and "within_bounds s"
  shows "length (logs (run_ops ops s)) \<le> 1000 \<and>
         length (responseTime (metrics (run_ops ops s))) \<le> 50 \<and>
         length (successRate (metrics (run_ops ops s))) \<le> 50 \<and>
         length (errorRate (metrics (run_ops ops s))) \<le> 50"
proof -
  from assms have "bounded_by 1000 50 s"
    by (simp add: bounded_by_def)
  then have "bounded_by 1000 50 (run_ops ops s)"
    by (rule run_ops_bounded)
  then show ?thesis
    by (simp add: bounded_by_def within_bounds_def)
qed

theorem monitoring_lists_bounded_witness:
  "maxLogEntries constructed = 1000 \<and> maxMetricPoints constructed = 50 \<and>
   within_bounds constructed \<and>
   length (logs (run_ops (auth_scenario noon noon noon noon noon noon) constructed)) \<le> 1000 \<and>
   length (responseTime (metrics
     (run_ops (auth_scenario noon noon noon noon noon noon) constructed))) \<le> 50 \<and>
   length (successRate (metrics
     (run_ops (auth_scenario noon noon noon noon noon noon) constructed))) \<le> 50 \<and>
   length (errorRate (metrics
     (run_ops (auth_scenario noon noon noon noon noon noon) constructed))) \<le> 50"
proof -
  have h: "maxLogEntries constructed = 1000" "maxMetricPoints constructed = 50"
    "within_bounds constructed"
    by (simp_all add: constructed_def within_bounds_def)
  from monitoring_lists_bounded [OF h, of "auth_scenario noon noon noon noon noon noon"] h
  show ?thesis by blast
qed

subsection \<open>Clearing the logs\<close>

text \<open>
  Claim C9. After \<open>clearLogs\<close> the log list is not empty: it holds exactly one entry, the
  info-level entry \<open>All logs cleared\<close> of the monitoring manager, because the list is
  emptied first and the confirmation is appended afterwards.
\<close>

theorem clearLogs_leaves_confirmation:
  "logs (clearLogs c s) =
     [\<lparr>entry_id = date_now c + math_random c, timestamp = iso_now c, level = ''info'',
       message = ''All logs cleared'', module = ''MonitoringManager'', details = None\<rparr>]"
  by (simp add: clearLogs_def addLog_def make_entry_def log_request_def str_or_def Let_def
      slice_from_end_def)

theorem clearLogs_leaves_confirmation_witness:
  "length (logs (clearLogs noon (initialize noon None None))) = 1 \<and>
   map message (logs (clearLogs noon (initialize noon None None))) = [''All logs cleared''] \<and>
   map level (logs (clearLogs noon (initialize noon None None))) = [''info'']"
  using clearLogs_leaves_confirmation [of noon "initialize noon None None"] by simp

subsection \<open>The success rate after a failed call\<close>

lemmas monitoring_defs =
  trackAPICallStart_def trackAPICallEnd_def addLog_def updateSuccessRate_def
  updateErrorRate_def make_entry_def log_request_def str_or_def push_point_def slice_from_end_def
  initialize_def startMonitoring_def loadStoredData_def constructed_def call_start_def
  call_end_def auth_scenario_def js_div_def

text \<open>
  The success rate is computed from the counters of the whole session, not from a window
  of recent calls.
\<close>

lemma updateSuccessRate_value:
  "0 < maxMetricPoints s \<Longrightarrow>
   pt_value (last (successRate (metrics (updateSuccessRate c s)))) =
     (if successfulCalls (performanceData s) + failedCalls (performanceData s) > 0
      then of_nat (successfulCalls (performanceData s)) /
           of_nat (successfulCalls (performanceData s) + failedCalls (performanceData s)) * 100
      else 100)"
  by (simp add: updateSuccessRate_def push_point_def slice_from_end_def Let_def)

text \<open>
  A tracked call that ends in failure is counted as two failed calls: once by
  \<open>trackAPICallEnd\<close> itself and once more by \<open>addLog\<close>, which counts the error-level entry
  that \<open>trackAPICallEnd\<close> logs.
\<close>

lemma failed_call_counted_twice:
  assumes "ed_callId d = Some i" and "apiCallTracker s i = Some cd" and "\<not> ed_success d"
  shows "failedCalls (performanceData (trackAPICallEnd c d s)) =
         failedCalls (performanceData s) + 2"
  using assms
  by (simp add: trackAPICallEnd_def addLog_def updateSuccessRate_def updateErrorRate_def
      make_entry_def log_request_def str_or_def Let_def)

text \<open>
  Claim C1. On a freshly loaded page (empty local storage), two tracked calls that succeed
  followed by one tracked call that fails append the success rates 100, 100 and 50: the
  lifetime counters then read two successful and two failed calls out of three started
  calls, so the last value is 50 per cent and not two thirds. The summary's own formula
  (successful calls over started calls) gives two thirds on the same state.
\<close>

theorem success_rate_after_failed_call:
  "map pt_value (successRate (metrics
      (run_ops (auth_scenario c1 c2 c3 c4 c5 c6) (initialize c0 None None)))) = [100, 100, 50] \<and>
   successfulCalls (performanceData
      (run_ops (auth_scenario c1 c2 c3 c4 c5 c6) (initialize c0 None None))) = 2 \<and>
   failedCalls (performanceData
      (run_ops (auth_scenario c1 c2 c3 c4 c5 c6) (initialize c0 None None))) = 2 \<and>
   apiCalls (performanceData
      (run_ops (auth_scenario c1 c2 c3 c4 c5 c6) (initialize c0 None None))) = 3 \<and>
   ms_successRate (getMonitoringSummary
      (run_ops (auth_scenario c1 c2 c3 c4 c5 c6) (initialize c0 None None))) = 200 / 3"
  by (simp add: monitoring_defs getMonitoringSummary_def Let_def)


section \<open>Properties of the configuration validator and of the login endpoint\<close>

subsection \<open>The configuration validator\<close>

text \<open>
  Claim C6. The validator is a function of the record alone and returns a validity flag
  with an error list. The \<open>URL\<close> constructor rejects the empty string; then a base URL
  that parses but does not start with \<open>https://\<close> makes the record invalid, with the
  error \<open>Base URL must use HTTPS\<close>, and a record whose base URL parses and starts with
  \<open>https://\<close>, whose name and code match their patterns and whose user name and
  password are not empty is valid with no error.
\<close>

theorem validateConfiguration_https:
  assumes "\<not> url_parses []"
    and "d = (case cfg of None \<Rightarrow> cur | Some c \<Rightarrow> c)"
  shows "(url_parses (baseUrl d) \<and> \<not> startsWith (baseUrl d) ''https://'' \<longrightarrow>
            \<not> isValid (validateConfiguration url_parses cur cfg) \<and>
            ''Base URL must use HTTPS'' \<in> set (errors (validateConfiguration url_parses cur cfg))) \<and>
         (url_parses (baseUrl d) \<and> startsWith (baseUrl d) ''https://'' \<and>
          name_pattern (integrationName d) \<and> code_pattern (integrationCode d) \<and>
          pluginUsername d \<noteq> [] \<and> pluginPassword d \<noteq> [] \<longrightarrow>
            validateConfiguration url_parses cur cfg = \<lparr>isValid = True, errors = []\<rparr>)"
proof (intro conjI impI)
  assume a: "url_parses (baseUrl d) \<and> \<not> startsWith (baseUrl d) ''https://''"
  with assms(1) have ne: "baseUrl d \<noteq> []" by auto
  from a ne show "\<not> isValid (validateConfiguration url_parses cur cfg)"
    by (simp add: validateConfiguration_def isValidUrl_def Let_def assms(2) [symmetric])
  from a ne show "''Base URL must use HTTPS'' \<in> set (errors (validateConfiguration url_parses cur cfg))"
    by (simp add: validateConfiguration_def isValidUrl_def Let_def assms(2) [symmetric])
next
  assume a: "url_parses (baseUrl d) \<and> startsWith (baseUrl d) ''https://'' \<and>
          name_pattern (integrationName d) \<and> code_pattern (integrationCode d) \<and>
          pluginUsername d \<noteq> [] \<and> pluginPassword d \<noteq> []"
  then have "baseUrl d \<noteq> []" "integrationName d \<noteq> []" "integrationCode d \<noteq> []"
    by (auto simp add: startsWith_def name_pattern_def code_pattern_def)
  with a show "validateConfiguration url_parses cur cfg = \<lparr>isValid = True, errors = []\<rparr>"
    by (simp add: validateConfiguration_def isValidUrl_def Let_def assms(2) [symmetric])
qed

theorem validateConfiguration_https_witness:
  "\<not> absolute_address [] \<and>
   absolute_address (baseUrl plain_http_config) \<and>
   \<not> startsWith (baseUrl plain_http_config) ''https://'' \<and>
   \<not> isValid (validateConfiguration absolute_address demo_config (Some plain_http_config)) \<and>
   ''Base URL must use HTTPS'' \<in>
      set (errors (validateConfiguration absolute_address demo_config (Some plain_http_config))) \<and>
   absolute_address (baseUrl demo_config) \<and> startsWith (baseUrl demo_config) ''https://'' \<and>
   name_pattern (integrationName demo_config) \<and> code_pattern (integrationCode demo_config) \<and>
   pluginUsername demo_config \<noteq> [] \<and> pluginPassword demo_config \<noteq> [] \<and>
   validateConfiguration absolute_address demo_config None = \<lparr>isValid = True, errors = []\<rparr>"
proof -
  have h0: "\<not> absolute_address []" by code_simp
  have h1: "absolute_address (baseUrl plain_http_config) \<and>
            \<not> startsWith (baseUrl plain_http_config) ''https://''" by code_simp
  have h2: "absolute_address (baseUrl demo_config) \<and> startsWith (baseUrl demo_config) ''https://'' \<and>
          name_pattern (integrationName demo_config) \<and> code_pattern (integrationCode demo_config) \<and>
          pluginUsername demo_config \<noteq> [] \<and> pluginPassword demo_config \<noteq> []" by code_simp
  from validateConfiguration_https [where url_parses = absolute_address
      and d = plain_http_config and cfg = "Some plain_http_config" and cur = demo_config]
    validateConfiguration_https [where url_parses = absolute_address
      and d = demo_config and cfg = None and cur = demo_config]
    h0 h1 h2
  show ?thesis by simp
qed

subsection \<open>The login endpoint\<close>

text \<open>
  Claim C7. The login endpoint answers every request whose user name and password are
  both present and not empty with status 200 and an object holding \<open>access_token\<close>,
  \<open>refresh_token\<close>, \<open>expires_in\<close> and \<open>token_type\<close>; when either credential is
  missing or empty it answers with status 400 and no token.
\<close>

theorem login_tokens:
  "(truthy (username b) \<and> truthy (password b) \<longrightarrow>
      (\<exists>u. username b = Some u \<and>
        login gen b = \<lparr>status = 200, success = True,
           data = Some \<lparr>access_token = gen u, refresh_token = gen (u @ ''_refresh''),
                        token_type = ''Bearer'', expires_in = 3600\<rparr>,
           error = None\<rparr>)) \<and>
   (\<not> truthy (username b) \<or> \<not> truthy (password b) \<longrightarrow>
      status (login gen b) = 400 \<and> \<not> success (login gen b) \<and> data (login gen b) = None)"
  by (auto simp add: login_def truthy_def split: option.splits)

theorem login_tokens_witness:
  "truthy (Some ''demo'') \<and> truthy (Some ''secret'') \<and>
   data (login demo_token \<lparr>username = Some ''demo'', password = Some ''secret''\<rparr>) =
     Some \<lparr>access_token = ''token:demo'', refresh_token = ''token:demo_refresh'',
           token_type = ''Bearer'', expires_in = 3600\<rparr> \<and>
   \<not> truthy (Some []) \<and>
   status (login demo_token \<lparr>username = Some ''demo'', password = Some []\<rparr>) = 400 \<and>
   data (login demo_token \<lparr>username = Some ''demo'', password = Some []\<rparr>) = None \<and>
   data (login demo_token \<lparr>username = None, password = Some ''secret''\<rparr>) = None"
  using login_tokens [of "\<lparr>username = Some ''demo'', password = Some ''secret''\<rparr>" demo_token]
    login_tokens [of "\<lparr>username = Some ''demo'', password = Some []\<rparr>" demo_token]
    login_tokens [of "\<lparr>username = None, password = Some ''secret''\<rparr>" demo_token]
  by (simp add: truthy_def demo_token_def)

section \<open>Properties of the reports module\<close>

subsection \<open>Validation\<close>

lemma own_template_defined:
  "t \<in> set [''completed'', ''cancelled'', ''performance'', ''errors'', ''all''] \<Longrightarrow>
   js_get reportTemplates t \<noteq> JUndefined \<and> js_truthy (js_get reportTemplates t)"
  by (auto simp add: js_get_def reportTemplates_def template_def)

text \<open>
  Claim C8. \<open>validateReportParameters\<close> never returns \<open>false\<close>: it returns \<open>true\<close> or throws.
  So the caller's branch that throws \<open>Invalid report parameters\<close> on a false result is
  never taken: no run of \<open>generateReport\<close> fails with that message.
\<close>

theorem validation_never_false:
  "validateReportParameters pg params \<noteq> Inr False \<and>
   prepare_report pg params \<noteq> Inl ''Invalid report parameters'' \<and>
   shown (generateReport pg form mgr) \<noteq>
     [Cross ''Report generation failed: Invalid report parameters'']"
proof -
  have v: "\<And>p. validateReportParameters pg p \<noteq> Inr False"
    by (simp add: validateReportParameters_def Let_def)
  have v2: "\<And>p. validateReportParameters pg p \<noteq> Inl ''Invalid report parameters''"
    by (simp add: validateReportParameters_def Let_def)
  have c: "\<And>p. createReportData pg p \<noteq> Inl ''Invalid report parameters''"
    by (simp add: createReportData_def Let_def)
  have p: "\<And>p. prepare_report pg p \<noteq> Inl ''Invalid report parameters''"
    using v v2 c by (auto simp add: prepare_report_def split: sum.splits)
  have g: "shown (generateReport pg form mgr) \<noteq>
      [Cross ''Report generation failed: Invalid report parameters'']"
    using p [of "getReportParameters form"]
    by (auto simp add: generateReport_def Let_def showReportResults_def
        split: sum.splits prod.splits)
  from v p g show ?thesis by blast
qed

subsection \<open>The order generators\<close>

text \<open>
  Claim C5. For every valid request for the completed-orders report, the document that
  \<open>createReportData\<close> builds has a summary whose \<open>total_orders\<close> is the length of its
  record list; that length is the day count times the orders per day.
\<close>

theorem completed_report_total_orders:
  assumes "validateReportParameters pg params = Inr True" and "type params = ''completed''"
  shows "\<exists>rd. createReportData pg params = Inr rd \<and>
           js_get (summary rd) ''total_orders'' = jnat (length (records rd)) \<and>
           length (records rd) = loop_count (daysDiff pg params) (random_int pg 0 20 10)"
proof -
  have t: "js_get reportTemplates ''completed'' \<noteq> JUndefined"
    using own_template_defined [of "''completed''"] by simp
  let ?rd = "generateCompletedOrdersReport pg
      \<lparr>reportInfo =
         \<lparr>title = js_prop (js_get reportTemplates ''completed'') ''name'',
          description = js_prop (js_get reportTemplates ''completed'') ''description'',
          generatedAt = Date_toISOString pg (Date_now pg),
          dateRange_from = fromDate params,
          dateRange_to = toDate params,
          vendor_code = str_or (map_option vendorCode (configManager pg)) ''N/A'',
          vendor_name = str_or (map_option integrationName (configManager pg)) ''N/A'',
          vendor_environment = str_or (map_option environment (configManager pg)) ''staging''\<rparr>,
       summary = [],
       records = []\<rparr> params"
  have c: "createReportData pg params = Inr ?rd"
    using t assms(2) by (simp add: createReportData_def Let_def)
  have s: "js_get (summary ?rd) ''total_orders'' = jnat (length (records ?rd))"
    by (simp add: generateCompletedOrdersReport_def Let_def js_get_def)
  have l: "length (records ?rd) = loop_count (daysDiff pg params) (random_int pg 0 20 10)"
    by (auto simp add: generateCompletedOrdersReport_def Let_def daysDiff_def new_Date_def
        days_between_def date_diff_def loop_count_def split: option.splits)
  from c s l show ?thesis by blast
qed

text \<open>
  Claim C10, as the code has it. A request whose two dates are the same non-empty text
  passes validation (given a known type and format), whether or not the text is a date.
  Both order generators then produce no records, and every count of their summaries is
  zero. The day count that they compute is zero when the text is a date and \<open>NaN\<close> when
  it is not.
\<close>

theorem same_day_reports_empty:
  assumes "fromDate params = toDate params" and "truthy (fromDate params)"
    and "js_truthy (js_get reportTemplates (type params))"
    and "format params \<in> set [''json'', ''csv'', ''pdf'']"
  shows "validateReportParameters pg params = Inr True \<and>
         daysDiff pg params =
           (case new_Date pg (fromDate params) of None \<Rightarrow> None | Some t \<Rightarrow> Some 0) \<and>
         records (generateCompletedOrdersReport pg rd params) = [] \<and>
         summary (generateCompletedOrdersReport pg rd params) =
           [(''total_orders'', jnat 0), (''total_revenue'', JStr (toFixed pg 2 (Some 0))),
            (''average_order_value'', JStr ''0.00''), (''average_delivery_time'', jnat 0),
            (''average_rating'', JStr ''0.0'')] \<and>
         records (generateCancelledOrdersReport pg rd params) = [] \<and>
         summary (generateCancelledOrdersReport pg rd params) =
           [(''total_cancelled'', jnat 0), (''total_refunded'', JStr (toFixed pg 2 (Some 0))),
            (''cancellation_reasons'', JObject []), (''customer_cancelled'', jnat 0),
            (''restaurant_cancelled'', jnat 0), (''refunds_processed'', jnat 0),
            (''refunds_pending'', jnat 0)]"
proof -
  from assms(2) obtain d where f: "fromDate params = Some d" and ne: "d \<noteq> []"
    by (auto simp add: truthy_def split: option.splits)
  from assms(1) f have t: "toDate params = Some d"
    by simp
  have dd: "daysDiff pg params =
      (case new_Date pg (fromDate params) of None \<Rightarrow> None | Some t \<Rightarrow> Some 0)"
    by (simp add: daysDiff_def f t new_Date_def days_between_def date_diff_def
        split: option.splits)
  have v: "validateReportParameters pg params = Inr True"
    using assms(3,4) ne
    by (simp add: validateReportParameters_def f t truthy_def new_Date_def days_between_def
        date_diff_def Let_def split: option.splits)
  have n: "\<And>k. loop_count (daysDiff pg params) k = 0"
    by (simp add: dd loop_count_def split: option.splits)
  have c: "records (generateCompletedOrdersReport pg rd params) = []"
    using n by (simp add: generateCompletedOrdersReport_def Let_def split: option.splits)
  have cs: "summary (generateCompletedOrdersReport pg rd params) =
           [(''total_orders'', jnat 0), (''total_revenue'', JStr (toFixed pg 2 (Some 0))),
            (''average_order_value'', JStr ''0.00''), (''average_delivery_time'', jnat 0),
            (''average_rating'', JStr ''0.0'')]"
    using n
    by (simp add: generateCompletedOrdersReport_def Let_def sum_parsed_def
        split: option.splits)
  have x: "records (generateCancelledOrdersReport pg rd params) = []"
    using n by (simp add: generateCancelledOrdersReport_def Let_def split: option.splits)
  have xs: "summary (generateCancelledOrdersReport pg rd params) =
           [(''total_cancelled'', jnat 0), (''total_refunded'', JStr (toFixed pg 2 (Some 0))),
            (''cancellation_reasons'', JObject []), (''customer_cancelled'', jnat 0),
            (''restaurant_cancelled'', jnat 0), (''refunds_processed'', jnat 0),
            (''refunds_pending'', jnat 0)]"
    using n
    by (simp add: generateCancelledOrdersReport_def Let_def sum_parsed_def count_where_def
        split: option.splits)
  from v dd c cs x xs show ?thesis by simp
qed

text \<open>
  When a date does not parse the day count is \<open>NaN\<close>; the loops do not run then either.
\<close>

lemma invalid_date_reports_empty:
  assumes "new_Date pg (fromDate params) = None \<or> new_Date pg (toDate params) = None"
  shows "daysDiff pg params = None \<and>
         records (generateCompletedOrdersReport pg rd params) = [] \<and>
         records (generateCancelledOrdersReport pg rd params) = []"
  using assms
  by (auto simp add: daysDiff_def days_between_def date_diff_def
      generateCompletedOrdersReport_def generateCancelledOrdersReport_def Let_def
      split: option.splits)

subsection \<open>The CSV text\<close>

lemma set_scalar_keys:
  "set (scalar_keys rec) =
     {key \<in> fst ` set rec. typeof (js_get rec key) \<noteq> ''object'' \<or> js_get rec key = JNull}"
  by (auto simp add: scalar_keys_def)

lemma add_columns_set: "set (foldl add_column columns keys) = set columns \<union> set keys"
  by (induction keys arbitrary: columns) (auto simp add: add_column_def)

lemma add_columns_distinct: "distinct columns \<Longrightarrow> distinct (foldl add_column columns keys)"
  by (induction keys arbitrary: columns) (auto simp add: add_column_def)

lemma collect_columns_set:
  "set (foldl (\<lambda>columns rec. foldl add_column columns (scalar_keys rec)) columns recs) =
     set columns \<union> (\<Union>rec \<in> set recs. set (scalar_keys rec))"
  by (induction recs arbitrary: columns) (auto simp add: add_columns_set)

lemma collect_columns_distinct:
  "distinct columns \<Longrightarrow>
   distinct (foldl (\<lambda>columns rec. foldl add_column columns (scalar_keys rec)) columns recs)"
  by (induction recs arbitrary: columns) (auto simp add: add_columns_distinct)

lemma csv_columns_set: "set (csv_columns recs) = scalar_key_set recs"
  by (auto simp add: csv_columns_def collect_columns_set set_scalar_keys scalar_key_set_def)

lemma csv_columns_sorted: "sorted (csv_columns recs) \<and> distinct (csv_columns recs)"
  by (simp add: csv_columns_def collect_columns_distinct)

lemma csv_columns_length: "length (csv_columns recs) = card (scalar_key_set recs)"
  using csv_columns_sorted [of recs] csv_columns_set [of recs] distinct_card by fastforce

lemma csv_unescape_other: "c \<noteq> CHR 0x22 \<Longrightarrow> csv_unescape (c # xs) = c # csv_unescape xs"
  by (cases xs) simp_all

lemma csv_unescape_escape: "csv_unescape (csv_escape s) = s"
proof (induction s)
  case Nil
  then show ?case by (simp add: csv_escape_def)
next
  case (Cons c s)
  then have ih: "csv_unescape (csv_escape s) = s" .
  have step: "csv_escape (c # s) =
      (if c = CHR 0x22 then [CHR 0x22, CHR 0x22] else [c]) @ csv_escape s"
    by (simp add: csv_escape_def)
  show ?case
  proof (cases "c = CHR 0x22")
    case True
    with ih step show ?thesis by simp
  next
    case False
    with ih step show ?thesis by (simp add: csv_unescape_other)
  qed
qed

lemma split_on_plain: "sep \<notin> set x \<Longrightarrow> split_on sep x = [x]"
  by (induction x) auto

lemma split_on_append:
  "sep \<notin> set x \<Longrightarrow> split_on sep (x @ sep # rest) = x # split_on sep rest"
  by (induction x) auto

lemma split_on_join:
  "cols \<noteq> [] \<Longrightarrow> \<forall>col \<in> set cols. sep \<notin> set col \<Longrightarrow>
   split_on sep (join [sep] cols) = cols"
proof (induction "[sep]" cols rule: join.induct)
  case 1
  then show ?case by simp
next
  case (2 x)
  then show ?case by (simp add: split_on_plain)
next
  case (3 x y ys)
  then show ?case by (simp add: split_on_append)
qed

lemma inherited_value_quoted:
  "map_of object_prototype column = Some v \<Longrightarrow> v \<noteq> JNull \<and> v \<noteq> JUndefined"
  by (auto simp add: object_prototype_def split: if_splits)

lemma csv_cell_cases:
  "csv_cell pg rec column =
     (case map_of rec column of
        Some v \<Rightarrow> if v = JNull \<or> v = JUndefined then []
                  else dquote @ csv_escape (String_js pg v) @ dquote
      | None \<Rightarrow>
          (case map_of object_prototype column of
             None \<Rightarrow> []
           | Some v \<Rightarrow> dquote @ csv_escape (String_js pg v) @ dquote))"
  using inherited_value_quoted [of column]
  by (auto simp add: csv_cell_def js_get_def Let_def split: option.splits)

lemma quoted_field_shape:
  "hd (dquote @ csv_escape s @ dquote) = CHR 0x22 \<and>
   last (dquote @ csv_escape s @ dquote) = CHR 0x22 \<and>
   csv_unescape (butlast (tl (dquote @ csv_escape s @ dquote))) = s"
  by (simp add: dquote_def butlast_append csv_unescape_escape)

text \<open>
  Claim C4, as the code has it. For a non-empty record list the CSV text is the header
  row and one row of data per record, joined by line feeds. The header row holds the
  scalar keys of all records (the own keys whose value is not of type object, \<open>null\<close>
  counting as a scalar), each once, sorted and joined by commas, without quotes. When
  there is a scalar key and no scalar key holds a comma, the header row splits at its
  commas into exactly these keys, so it has as many columns as there are distinct scalar
  keys. Every row of data holds one field per column, joined by commas. The field of a
  record and a column is empty, without quotes, when the value \<open>record[column]\<close> is \<open>null\<close>
  or \<open>undefined\<close>: the record holds \<open>null\<close> or \<open>undefined\<close> under the key, or it lacks the
  key and the key is not a name that objects inherit. Otherwise, also when the record
  lacks a key such as \<open>toString\<close> and the inherited function is read, the field is the
  text of the value between double quotes, with every double quote inside doubled, so
  that the text can be read back.
\<close>

theorem formatAsCSV_layout:
  assumes "records rd \<noteq> []"
  shows "formatAsCSV pg rd =
           join newline
             (join '','' (csv_columns (records rd)) #
              map (\<lambda>rec. join '','' (map (csv_cell pg rec) (csv_columns (records rd))))
                (records rd)) \<and>
         sorted (csv_columns (records rd)) \<and> distinct (csv_columns (records rd)) \<and>
         set (csv_columns (records rd)) = scalar_key_set (records rd) \<and>
         length (csv_columns (records rd)) = card (scalar_key_set (records rd)) \<and>
         (scalar_key_set (records rd) \<noteq> {} \<and>
          (\<forall>key \<in> scalar_key_set (records rd). CHR '','' \<notin> set key) \<longrightarrow>
            split_on CHR '','' (join '','' (csv_columns (records rd))) = csv_columns (records rd) \<and>
            length (split_on CHR '','' (join '','' (csv_columns (records rd)))) =
              card (scalar_key_set (records rd))) \<and>
         (\<forall>rec column.
            (map_of rec column = Some JNull \<or> map_of rec column = Some JUndefined \<or>
             map_of rec column = None \<and> column \<notin> fst ` set object_prototype \<longrightarrow>
               csv_cell pg rec column = []) \<and>
            (\<forall>v. (map_of rec column = Some v \<and> v \<noteq> JNull \<and> v \<noteq> JUndefined \<or>
                  map_of rec column = None \<and> map_of object_prototype column = Some v) \<longrightarrow>
               csv_cell pg rec column = dquote @ csv_escape (String_js pg v) @ dquote \<and>
               hd (csv_cell pg rec column) = CHR 0x22 \<and>
               last (csv_cell pg rec column) = CHR 0x22 \<and>
               csv_unescape (butlast (tl (csv_cell pg rec column))) = String_js pg v)) \<and>
         (\<forall>s. csv_unescape (csv_escape s) = s)"
proof -
  let ?cols = "csv_columns (records rd)"
  have out: "formatAsCSV pg rd =
           join newline
             (join '','' ?cols #
              map (\<lambda>rec. join '','' (map (csv_cell pg rec) ?cols)) (records rd))"
    using assms by (simp add: formatAsCSV_def Let_def)
  have cols: "sorted ?cols \<and> distinct ?cols \<and> set ?cols = scalar_key_set (records rd) \<and>
      length ?cols = card (scalar_key_set (records rd))"
    by (simp add: csv_columns_sorted csv_columns_set csv_columns_length)
  have header: "scalar_key_set (records rd) \<noteq> {} \<and>
          (\<forall>key \<in> scalar_key_set (records rd). CHR '','' \<notin> set key) \<longrightarrow>
            split_on CHR '','' (join '','' ?cols) = ?cols \<and>
            length (split_on CHR '','' (join '','' ?cols)) = card (scalar_key_set (records rd))"
  proof
    assume a: "scalar_key_set (records rd) \<noteq> {} \<and>
          (\<forall>key \<in> scalar_key_set (records rd). CHR '','' \<notin> set key)"
    then have ne: "?cols \<noteq> []"
      using csv_columns_set [of "records rd"] by auto
    from a have nc: "\<forall>col \<in> set ?cols. CHR '','' \<notin> set col"
      by (simp add: csv_columns_set)
    from split_on_join [OF ne nc]
    have "split_on CHR '','' (join '','' ?cols) = ?cols" .
    then show "split_on CHR '','' (join '','' ?cols) = ?cols \<and>
            length (split_on CHR '','' (join '','' ?cols)) = card (scalar_key_set (records rd))"
      by (simp add: csv_columns_length)
  qed
  have empty: "\<And>rec column.
      map_of rec column = Some JNull \<or> map_of rec column = Some JUndefined \<or>
      map_of rec column = None \<and> column \<notin> fst ` set object_prototype \<Longrightarrow>
      csv_cell pg rec column = []"
  proof -
    fix rec :: jsobj and column
    assume a: "map_of rec column = Some JNull \<or> map_of rec column = Some JUndefined \<or>
      map_of rec column = None \<and> column \<notin> fst ` set object_prototype"
    have "column \<notin> fst ` set object_prototype \<Longrightarrow> map_of object_prototype column = None"
      by (simp add: map_of_eq_None_iff)
    with a show "csv_cell pg rec column = []"
      by (auto simp add: csv_cell_cases)
  qed
  have quoted: "\<And>rec column v.
      map_of rec column = Some v \<and> v \<noteq> JNull \<and> v \<noteq> JUndefined \<or>
      map_of rec column = None \<and> map_of object_prototype column = Some v \<Longrightarrow>
      csv_cell pg rec column = dquote @ csv_escape (String_js pg v) @ dquote"
    by (auto simp add: csv_cell_cases)
  have cells: "\<forall>rec column.
            (map_of rec column = Some JNull \<or> map_of rec column = Some JUndefined \<or>
             map_of rec column = None \<and> column \<notin> fst ` set object_prototype \<longrightarrow>
               csv_cell pg rec column = []) \<and>
            (\<forall>v. (map_of rec column = Some v \<and> v \<noteq> JNull \<and> v \<noteq> JUndefined \<or>
                  map_of rec column = None \<and> map_of object_prototype column = Some v) \<longrightarrow>
               csv_cell pg rec column = dquote @ csv_escape (String_js pg v) @ dquote \<and>
               hd (csv_cell pg rec column) = CHR 0x22 \<and>
               last (csv_cell pg rec column) = CHR 0x22 \<and>
               csv_unescape (butlast (tl (csv_cell pg rec column))) = String_js pg v)"
  proof (intro allI conjI impI)
    fix rec column
    assume "map_of rec column = Some JNull \<or> map_of rec column = Some JUndefined \<or>
             map_of rec column = None \<and> column \<notin> fst ` set object_prototype"
    then show "csv_cell pg rec column = []" by (rule empty)
  next
    fix rec column v
    assume a: "map_of rec column = Some v \<and> v \<noteq> JNull \<and> v \<noteq> JUndefined \<or>
                  map_of rec column = None \<and> map_of object_prototype column = Some v"
    then have q: "csv_cell pg rec column = dquote @ csv_escape (String_js pg v) @ dquote"
      by (rule quoted)
    show "csv_cell pg rec column = dquote @ csv_escape (String_js pg v) @ dquote"
      by (rule q)
    show "hd (csv_cell pg rec column) = CHR 0x22"
      using quoted_field_shape [of "String_js pg v"] by (simp add: q)
    show "last (csv_cell pg rec column) = CHR 0x22"
      using quoted_field_shape [of "String_js pg v"] by (simp add: q)
    show "csv_unescape (butlast (tl (csv_cell pg rec column))) = String_js pg v"
      using quoted_field_shape [of "String_js pg v"] by (simp add: q)
  qed
  from out cols header cells csv_unescape_escape show ?thesis
    by blast
qed

theorem formatAsCSV_layout_witness:
  "records sample_report \<noteq> [] \<and>
   csv_columns (records sample_report) = [''count'', ''info'', ''name'', ''note''] \<and>
   scalar_key_set (records sample_report) = set [''count'', ''info'', ''name'', ''note''] \<and>
   split_on CHR '','' (join '','' (csv_columns (records sample_report))) =
     [''count'', ''info'', ''name'', ''note''] \<and>
   length (split_on CHR '','' (join '','' (csv_columns (records sample_report)))) =
     card (scalar_key_set (records sample_report)) \<and>
   formatAsCSV demo_page sample_report =
     join newline
       [''count,info,name,note'',
        dquote @ ''2'' @ dquote @ '','' @ dquote @ ''[object Object]'' @ dquote @ '','' @
          dquote @ ''6 '' @ dquote @ dquote @ ''wide'' @ dquote @ dquote @ dquote @ '','',
        '','' @ dquote @ ''none'' @ dquote @ '',,''] \<and>
   csv_cell demo_page [(''info'', JStr ''none''), (''note'', JNull)] ''note'' = [] \<and>
   csv_cell demo_page [(''info'', JStr ''none''), (''note'', JNull)] ''name'' = [] \<and>
   csv_cell demo_page [(''info'', JStr ''none''), (''note'', JNull)] ''info'' =
     dquote @ csv_escape ''none'' @ dquote \<and>
   csv_unescape (butlast (tl
     (csv_cell demo_page [(''info'', JStr ''none''), (''note'', JNull)] ''info''))) = ''none'' \<and>
   csv_cell demo_page [(''area'', JStr ''y'')] ''toString'' =
     dquote @ csv_escape ''function toString() { [native code] }'' @ dquote"
proof -
  have h: "records sample_report \<noteq> []"
    by (simp add: sample_report_def)
  have c: "csv_columns (records sample_report) = [''count'', ''info'', ''name'', ''note'']"
    by code_simp
  have f: "join newline
       (join '','' (csv_columns (records sample_report)) #
        map (\<lambda>rec. join '','' (map (csv_cell demo_page rec) (csv_columns (records sample_report))))
          (records sample_report)) =
     join newline
       [''count,info,name,note'',
        dquote @ ''2'' @ dquote @ '','' @ dquote @ ''[object Object]'' @ dquote @ '','' @
          dquote @ ''6 '' @ dquote @ dquote @ ''wide'' @ dquote @ dquote @ dquote @ '','',
        '','' @ dquote @ ''none'' @ dquote @ '',,'']"
    by code_simp
  note layout = formatAsCSV_layout [OF h, of demo_page]
  from layout have "set (csv_columns (records sample_report)) = scalar_key_set (records sample_report)"
    by blast
  with c have s: "scalar_key_set (records sample_report) = set [''count'', ''info'', ''name'', ''note'']"
    by simp
  have ne: "scalar_key_set (records sample_report) \<noteq> {}"
    by (simp add: s)
  have nc: "\<forall>key \<in> scalar_key_set (records sample_report). CHR '','' \<notin> set key"
    by (simp add: s)
  from layout ne nc
  have sp: "split_on CHR '','' (join '','' (csv_columns (records sample_report))) =
        csv_columns (records sample_report) \<and>
      length (split_on CHR '','' (join '','' (csv_columns (records sample_report)))) =
        card (scalar_key_set (records sample_report))"
    by blast
  from layout have "formatAsCSV demo_page sample_report =
      join newline
       (join '','' (csv_columns (records sample_report)) #
        map (\<lambda>rec. join '','' (map (csv_cell demo_page rec) (csv_columns (records sample_report))))
          (records sample_report))"
    by blast
  with f have out: "formatAsCSV demo_page sample_report =
     join newline
       [''count,info,name,note'',
        dquote @ ''2'' @ dquote @ '','' @ dquote @ ''[object Object]'' @ dquote @ '','' @
          dquote @ ''6 '' @ dquote @ dquote @ ''wide'' @ dquote @ dquote @ dquote @ '','',
        '','' @ dquote @ ''none'' @ dquote @ '',,'']"
    by simp
  from layout have cells: "\<And>rec column.
      (map_of rec column = Some JNull \<or> map_of rec column = Some JUndefined \<or>
       map_of rec column = None \<and> column \<notin> fst ` set object_prototype \<longrightarrow>
         csv_cell demo_page rec column = []) \<and>
      (\<forall>v. (map_of rec column = Some v \<and> v \<noteq> JNull \<and> v \<noteq> JUndefined \<or>
            map_of rec column = None \<and> map_of object_prototype column = Some v) \<longrightarrow>
         csv_cell demo_page rec column = dquote @ csv_escape (String_js demo_page v) @ dquote \<and>
         hd (csv_cell demo_page rec column) = CHR 0x22 \<and>
         last (csv_cell demo_page rec column) = CHR 0x22 \<and>
         csv_unescape (butlast (tl (csv_cell demo_page rec column))) = String_js demo_page v)"
    by blast
  have e1: "csv_cell demo_page [(''info'', JStr ''none''), (''note'', JNull)] ''note'' = []"
    using cells [of "[(''info'', JStr ''none''), (''note'', JNull)]" "''note''"] by simp
  have e2: "csv_cell demo_page [(''info'', JStr ''none''), (''note'', JNull)] ''name'' = []"
    using cells [of "[(''info'', JStr ''none''), (''note'', JNull)]" "''name''"]
    by (simp add: object_prototype_def)
  have p3: "map_of [(''info'', JStr ''none''), (''note'', JNull)] ''info'' = Some (JStr ''none'') \<and>
        JStr ''none'' \<noteq> JNull \<and> JStr ''none'' \<noteq> JUndefined \<or>
      map_of [(''info'', JStr ''none''), (''note'', JNull)] ''info'' = None \<and>
        map_of object_prototype ''info'' = Some (JStr ''none'')"
    by simp
  from cells [of "[(''info'', JStr ''none''), (''note'', JNull)]" "''info''"] p3
  have a3: "csv_cell demo_page [(''info'', JStr ''none''), (''note'', JNull)] ''info'' =
        dquote @ csv_escape (String_js demo_page (JStr ''none'')) @ dquote"
    and b3: "csv_unescape (butlast (tl
        (csv_cell demo_page [(''info'', JStr ''none''), (''note'', JNull)] ''info''))) =
        String_js demo_page (JStr ''none'')"
    by blast+
  from a3 have a3': "csv_cell demo_page [(''info'', JStr ''none''), (''note'', JNull)] ''info'' =
        dquote @ csv_escape ''none'' @ dquote"
    by simp
  from b3 have b3': "csv_unescape (butlast (tl
        (csv_cell demo_page [(''info'', JStr ''none''), (''note'', JNull)] ''info''))) = ''none''"
    by simp
  have e4: "csv_cell demo_page [(''area'', JStr ''y'')] ''toString'' =
      dquote @ csv_escape ''function toString() { [native code] }'' @ dquote"
    using cells [of "[(''area'', JStr ''y'')]" "''toString''"]
    by (simp add: object_prototype_def)
  from sp c have sp1: "split_on CHR '','' (join '','' (csv_columns (records sample_report))) =
      [''count'', ''info'', ''name'', ''note'']"
    by simp
  from sp have sp2: "length (split_on CHR '','' (join '','' (csv_columns (records sample_report)))) =
      card (scalar_key_set (records sample_report))"
    by (rule conjunct2)
  show ?thesis
    by (intro conjI h c s sp1 sp2 out e1 e2 a3' b3' e4)
qed

text \<open>
  A record that lacks the key \<open>toString\<close>, which another record holds: the field is the
  text of the inherited function, in quotes.
\<close>

lemma csv_missing_inherited_key:
  "formatAsCSV demo_page inherited_key_report =
     join newline
       [''area,toString'',
        '','' @ dquote @ ''x'' @ dquote,
        dquote @ ''y'' @ dquote @ '','' @
          dquote @ ''function toString() { [native code] }'' @ dquote]"
  by code_simp

lemma network_error_logged:
  "logs (addLog noon (log_request noon ''error'' ''Network down'' ''Global'' None) constructed) =
     [network_error]"
  by (simp add: addLog_def make_entry_def log_request_def str_or_def constructed_def noon_def
      network_error_def updateErrorRate_def Let_def)

text \<open>
  Three record lists on which the claim as stated fails. The errors report of a page
  whose one error entry has no details holds \<open>details: null\<close>, and its row of the CSV
  text starts with an empty field without quotes. A record whose one key is \<open>a,b\<close> gives
  a header row that splits into two columns. A record with no scalar key gives an empty
  header row, which is one (empty) column.
\<close>

theorem csv_unquoted_value_and_header_count:
  "length (records (generateErrorsReport error_page sample_report january)) = 1 \<and>
   map_of (hd (records (generateErrorsReport error_page sample_report january))) ''details'' =
     Some JNull \<and>
   formatAsCSV error_page (generateErrorsReport error_page sample_report january) =
     join newline
       [''details,error_type,message,module,timestamp'',
        '','' @ dquote @ ''Network'' @ dquote @ '','' @ dquote @ ''Network down'' @ dquote @
        '','' @ dquote @ ''Global'' @ dquote @ '','' @
        dquote @ ''2024-01-01T12:00:00.000Z'' @ dquote] \<and>
   csv_columns (records comma_key_report) = [''a,b''] \<and>
   formatAsCSV demo_page comma_key_report = join newline [''a,b'', dquote @ ''1'' @ dquote] \<and>
   split_on CHR '','' ''a,b'' = [''a'', ''b''] \<and>
   csv_columns (records object_only_report) = [] \<and>
   formatAsCSV demo_page object_only_report = join newline [[], []] \<and>
   split_on CHR '','' [] = [[]]"
  by code_simp

subsection \<open>Examples of the order generators and of the validation\<close>

theorem completed_report_total_orders_witness:
  "validateReportParameters demo_page january = Inr True \<and>
   type january = ''completed'' \<and>
   loop_count (daysDiff demo_page january) (random_int demo_page 0 20 10) = 360 \<and>
   (\<exists>rd. createReportData demo_page january = Inr rd \<and>
      js_get (summary rd) ''total_orders'' = jnat 360 \<and> length (records rd) = 360)"
proof -
  have v: "validateReportParameters demo_page january = Inr True"
    by code_simp
  have t: "type january = ''completed''"
    by (simp add: january_def)
  have n: "loop_count (daysDiff demo_page january) (random_int demo_page 0 20 10) = 360"
    by code_simp
  from completed_report_total_orders [OF v t] v t n show ?thesis
    by auto
qed

theorem same_day_reports_empty_witness:
  "fromDate new_year = toDate new_year \<and> truthy (fromDate new_year) \<and>
   js_truthy (js_get reportTemplates (type new_year)) \<and>
   new_Date demo_page (fromDate new_year) = Some 1704067200000 \<and>
   validateReportParameters demo_page new_year = Inr True \<and>
   daysDiff demo_page new_year = Some 0 \<and>
   records (generateCompletedOrdersReport demo_page sample_report new_year) = [] \<and>
   js_get (summary (generateCompletedOrdersReport demo_page sample_report new_year))
     ''total_orders'' = jnat 0 \<and>
   records (generateCancelledOrdersReport demo_page sample_report new_year) = [] \<and>
   js_get (summary (generateCancelledOrdersReport demo_page sample_report new_year))
     ''total_cancelled'' = jnat 0 \<and>
   fromDate someday = toDate someday \<and> truthy (fromDate someday) \<and>
   new_Date demo_page (fromDate someday) = None \<and>
   validateReportParameters demo_page someday = Inr True \<and>
   daysDiff demo_page someday = None \<and>
   records (generateCompletedOrdersReport demo_page sample_report someday) = [] \<and>
   records (generateCancelledOrdersReport demo_page sample_report someday) = []"
proof -
  have f: "fromDate new_year = toDate new_year" "fromDate someday = toDate someday"
    by (simp_all add: new_year_def someday_def)
  have n: "truthy (fromDate new_year)" "truthy (fromDate someday)"
    by (simp_all add: new_year_def someday_def truthy_def)
  have p: "new_Date demo_page (fromDate new_year) = Some 1704067200000"
    by code_simp
  have q: "new_Date demo_page (fromDate someday) = None"
    by code_simp
  have t: "js_truthy (js_get reportTemplates (type new_year))"
    "js_truthy (js_get reportTemplates (type someday))"
    by code_simp+
  have m: "format new_year \<in> set [''json'', ''csv'', ''pdf'']"
    "format someday \<in> set [''json'', ''csv'', ''pdf'']"
    by (simp_all add: new_year_def someday_def)
  from same_day_reports_empty [OF f(1) n(1) t(1) m(1), of demo_page sample_report]
    same_day_reports_empty [OF f(2) n(2) t(2) m(2), of demo_page sample_report]
    f n p q t
  show ?thesis
    by (simp add: js_get_def)
qed

text \<open>
  The text \<open>someday\<close> is not a date. With it as both dates the request passes validation,
  and the day count is \<open>NaN\<close>, not zero.
\<close>

theorem same_text_not_a_date:
  "fromDate someday = toDate someday \<and>
   Date_parse demo_page ''someday'' = None \<and>
   validateReportParameters demo_page someday = Inr True \<and>
   daysDiff demo_page someday = None \<and>
   daysDiff demo_page someday \<noteq> Some 0"
  by code_simp

theorem validation_never_false_witness:
  "validateReportParameters demo_page january = Inr True \<and>
   validateReportParameters demo_page (january\<lparr>format := ''xml''\<rparr>) = Inl ''Invalid report format'' \<and>
   validateReportParameters demo_page january \<noteq> Inr False \<and>
   prepare_report demo_page (january\<lparr>format := ''xml''\<rparr>) \<noteq> Inl ''Invalid report parameters'' \<and>
   shown (generateReport demo_page (january_form ''completed'' ''xml'') no_history) =
     [Cross ''Report generation failed: Invalid report format'']"
proof -
  have a: "validateReportParameters demo_page january = Inr True"
    by code_simp
  have b: "validateReportParameters demo_page (january\<lparr>format := ''xml''\<rparr>) =
      Inl ''Invalid report format''"
    by code_simp
  have c: "shown (generateReport demo_page (january_form ''completed'' ''xml'') no_history) =
     [Cross ''Report generation failed: Invalid report format'']"
    by code_simp
  from validation_never_false [of demo_page january]
    validation_never_false [of demo_page "january\<lparr>format := ''xml''\<rparr>"] a b c
  show ?thesis by simp
qed

subsection \<open>Requests that the validation rejects, and one that it lets through\<close>

lemma unknown_type_undefined:
  assumes "t \<notin> set [''completed'', ''cancelled'', ''performance'', ''errors'', ''all'']"
    and "t \<notin> fst ` set object_prototype"
  shows "js_get reportTemplates t = JUndefined"
proof -
  from assms(1) have "map_of reportTemplates t = None"
    by (simp add: reportTemplates_def)
  moreover from assms(2) have "map_of object_prototype t = None"
    by (simp add: map_of_eq_None_iff)
  ultimately show ?thesis
    by (simp add: js_get_def)
qed

text \<open>
  A request is rejected when a date is missing, when the first date is later than the
  second, when the range exceeds 365 days, when the type is neither a template nor a name
  that objects inherit, or when the format is unknown. The run then shows one line, the
  failure with the message of the first failing check, delivers no file and leaves the
  history as it was.
\<close>

lemma invalid_request_rejected:
  assumes "params = getReportParameters form"
    and "\<not> truthy (fromDate params) \<or> \<not> truthy (toDate params) \<or>
         (\<exists>f t. new_Date pg (fromDate params) = Some f \<and> new_Date pg (toDate params) = Some t \<and>
                (t < f \<or> of_int (t - f) / ms_per_day > 365)) \<or>
         (type params \<notin> set [''completed'', ''cancelled'', ''performance'', ''errors'', ''all''] \<and>
          type params \<notin> fst ` set object_prototype) \<or>
         format params \<notin> set [''json'', ''csv'', ''pdf'']"
  shows "\<exists>msg. msg \<in> set [''Please select date range'',
                          ''From date cannot be later than to date'',
                          ''Date range cannot exceed 365 days'',
                          ''Invalid report type'', ''Invalid report format''] \<and>
           generateReport pg form mgr =
             \<lparr>manager = mgr, shown = [Cross (''Report generation failed: '' @ msg)],
              delivered = None, activity = (''Report generation failed: '' @ msg, ''error'')\<rparr>"
proof -
  have u: "type params \<notin> set [''completed'', ''cancelled'', ''performance'', ''errors'', ''all''] \<and>
          type params \<notin> fst ` set object_prototype \<Longrightarrow>
          \<not> js_truthy (js_get reportTemplates (type params))"
    using unknown_type_undefined [of "type params"] by simp
  from assms(2) u
  have "\<exists>msg. msg \<in> set [''Please select date range'',
                          ''From date cannot be later than to date'',
                          ''Date range cannot exceed 365 days'',
                          ''Invalid report type'', ''Invalid report format''] \<and>
          validateReportParameters pg params = Inl msg"
    by (auto simp add: validateReportParameters_def Let_def days_between_def date_diff_def
        split: option.splits)
  then obtain msg where m: "msg \<in> set [''Please select date range'',
                          ''From date cannot be later than to date'',
                          ''Date range cannot exceed 365 days'',
                          ''Invalid report type'', ''Invalid report format'']"
    and v: "validateReportParameters pg params = Inl msg"
    by blast
  from v have "generateReport pg form mgr =
             \<lparr>manager = mgr, shown = [Cross (''Report generation failed: '' @ msg)],
              delivered = None, activity = (''Report generation failed: '' @ msg, ''error'')\<rparr>"
    by (simp add: generateReport_def prepare_report_def assms(1) [symmetric])
  with m show ?thesis by blast
qed

text \<open>
  Claim C2. The type \<open>constructor\<close> is none of the five report types, yet the validation
  accepts it, since \<open>reportTemplates['constructor']\<close> is the inherited constructor
  function: the run shows the lines of a success, delivers a file and adds a record
  (with no report records) to the history.
\<close>

theorem inherited_type_not_rejected:
  "validateReportParameters demo_page (getReportParameters (january_form ''constructor'' ''json''))
     = Inr True \<and>
   reportHistory (manager (generateReport demo_page (january_form ''constructor'' ''json'') no_history)) =
     [\<lparr>h_id = 1704110400000, h_type = ''constructor'', h_format = ''json'',
       h_from = Some ''2024-01-01'', h_to = Some ''2024-01-31'',
       h_generatedAt = ''2024-01-01T12:00:00.000Z'', recordCount = 0, fileSize = 316\<rparr>] \<and>
   shown (generateReport demo_page (january_form ''constructor'' ''json'') no_history) =
     [Check ''Report generated successfully'', Check ''Report type: Object'',
      Check ''Date range: 2024-01-01 to 2024-01-31'', Check ''Format: JSON'',
      Check ''Records: 0'', Check ''File size: 316 Bytes'',
      Check ''Report downloaded successfully'']"
  by code_simp

theorem inherited_type_not_rejected_witness:
  "length (reportHistory (manager
      (generateReport demo_page (january_form ''constructor'' ''json'') no_history))) = 1 \<and>
   length (reportHistory no_history) = 0"
  using inherited_type_not_rejected by (simp add: no_history_def)


end
